theory Spec2Isabelle
  imports Complex_Main "HOL-Library.Stream"
begin

section \<open>Integration Quest: combat, progression, generation\<close>

text \<open>
  A shallow embedding of the game engine's Python sources.  Python integers are
  \<^typ>\<open>int\<close>, strings are byte strings (ASCII), exceptions are values of
  \<open>py_error\<close>, and Python floats are idealised as exact rationals or reals: every float
  constant of the modelled code (\<open>0.5\<close>, \<open>1.25\<close>, \<open>1.0\<close>) is dyadic and exact, and the
  products stay far below \<open>2 ^ 53\<close> for game-sized numbers.  Narrative message lists are
  presentation only and are left out of the results.
\<close>

subsection \<open>Exceptions and the random source\<close>

datatype py_error = ValueError | IndexError | KeyError | TypeError

text \<open>
  The module \<open>random\<close> is a hidden global generator.  It is made explicit as a stream of
  raw natural numbers; each library call consumes one raw number and returns the rest of
  the stream.
\<close>

type_synonym rng = "nat stream"

text \<open>\<open>random.randint(a, b)\<close>: uniform in \<open>[a, b]\<close>, \<open>ValueError\<close> on an empty range.\<close>

definition randint :: "int \<Rightarrow> int \<Rightarrow> rng \<Rightarrow> py_error + (int \<times> rng)" where
  "randint a b g =
     (if b < a then Inl ValueError
      else Inr (a + int (shd g mod nat (b - a + 1)), stl g))"

text \<open>\<open>random.choice(seq)\<close>: \<open>IndexError\<close> on an empty sequence.\<close>

definition random_choice :: "'a list \<Rightarrow> rng \<Rightarrow> py_error + ('a \<times> rng)" where
  "random_choice xs g =
     (if xs = [] then Inl IndexError
      else Inr (xs ! (shd g mod length xs), stl g))"

text \<open>\<open>random.random()\<close>: a float in \<open>[0, 1)\<close> with 53 random bits.\<close>

definition random_random :: "rng \<Rightarrow> rat \<times> rng" where
  "random_random g = (Fract (int (shd g mod 2 ^ 53)) (2 ^ 53), stl g)"

text \<open>\<open>int(x)\<close> on a float truncates towards zero.\<close>

definition py_trunc :: "rat \<Rightarrow> int" where
  "py_trunc x = (if 0 \<le> x then \<lfloor>x\<rfloor> else \<lceil>x\<rceil>)"

subsection \<open>Dice (systems/dice.py)\<close>

definition is_digit :: "char \<Rightarrow> bool" where
  "is_digit c = (c \<in> set ''0123456789'')"

definition digit_val :: "char \<Rightarrow> int" where
  "digit_val c = int (of_char c) - 48"

text \<open>The decimal value of a string of digits.\<close>

definition int_of_digits :: "string \<Rightarrow> int" where
  "int_of_digits ds = foldl (\<lambda>a c. 10 * a + digit_val c) 0 ds"

text \<open>\<open>str.lower()\<close> and \<open>str.strip()\<close> on ASCII strings.\<close>

definition lower_char :: "char \<Rightarrow> char" where
  "lower_char c =
     (case map_of (zip ''ABCDEFGHIJKLMNOPQRSTUVWXYZ'' ''abcdefghijklmnopqrstuvwxyz'') c of
        Some l \<Rightarrow> l
      | None \<Rightarrow> c)"

definition lower :: "string \<Rightarrow> string" where
  "lower s = map lower_char s"

definition is_space :: "char \<Rightarrow> bool" where
  "is_space c = (of_char c \<in> set [9, 10, 11, 12, 13, 28, 29, 30, 31, 32 :: nat])"

definition strip :: "string \<Rightarrow> string" where
  "strip s = rev (dropWhile is_space (rev (dropWhile is_space s)))"

text \<open>
  \<open>re.match(r'(\d+)d(\d+)([+-]\d+)?', s)\<close>: a match anchored at the start only.  The
  result holds the three groups; the third is \<open>None\<close> when the optional modifier is
  absent.  Both \<open>\d+\<close> are greedy and no backtracking can help, since the character after
  a maximal run of digits is not a digit.
\<close>

fun dice_modifier :: "string \<Rightarrow> string option" where
  "dice_modifier [] = None"
| "dice_modifier (sg # r) =
     (if (sg = CHR ''+'' \<or> sg = CHR ''-'') \<and> takeWhile is_digit r \<noteq> []
      then Some (sg # takeWhile is_digit r) else None)"

definition dice_match :: "string \<Rightarrow> (string \<times> string \<times> string option) option" where
  "dice_match s =
     (let n = takeWhile is_digit s; r1 = dropWhile is_digit s in
      if n = [] \<or> r1 = [] \<or> hd r1 \<noteq> CHR ''d'' then None
      else
        let m = takeWhile is_digit (tl r1); r3 = dropWhile is_digit (tl r1) in
        if m = [] then None else Some (n, m, dice_modifier r3))"

text \<open>
  \<open>int(s)\<close> on a string: surrounding whitespace is dropped, one sign is allowed, and the
  digits may be separated by single underscores.  \<open>None\<close> stands for \<open>ValueError\<close>.
\<close>

fun digits_us :: "string \<Rightarrow> string option" where
  "digits_us [] = None"
| "digits_us [c] = (if is_digit c then Some [c] else None)"
| "digits_us (c # u # rest) =
     (if \<not> is_digit c then None
      else if u = CHR ''_''
        then (case digits_us rest of None \<Rightarrow> None | Some ds \<Rightarrow> Some (c # ds))
        else (case digits_us (u # rest) of None \<Rightarrow> None | Some ds \<Rightarrow> Some (c # ds)))"

definition py_int :: "string \<Rightarrow> int option" where
  "py_int s =
     (case strip s of
        [] \<Rightarrow> None
      | c # r \<Rightarrow>
          if c = CHR ''-'' then map_option (\<lambda>ds. - int_of_digits ds) (digits_us r)
          else if c = CHR ''+'' then map_option int_of_digits (digits_us r)
          else map_option int_of_digits (digits_us (c # r)))"

text \<open>The list comprehension \<open>[random.randint(1, die_size) for _ in range(num_dice)]\<close>.\<close>

fun roll_each :: "nat \<Rightarrow> int \<Rightarrow> rng \<Rightarrow> py_error + (int list \<times> rng)" where
  "roll_each 0 die_size g = Inr ([], g)"
| "roll_each (Suc k) die_size g =
     (case randint 1 die_size g of
        Inl e \<Rightarrow> Inl e
      | Inr (r, g1) \<Rightarrow>
          (case roll_each k die_size g1 of
             Inl e \<Rightarrow> Inl e
           | Inr (rs, g2) \<Rightarrow> Inr (r # rs, g2)))"

definition roll_dice :: "string \<Rightarrow> rng \<Rightarrow> py_error + ((int \<times> int list) \<times> rng)" where
  "roll_dice notation g =
     (case dice_match (strip (lower notation)) of
        None \<Rightarrow>
          (case py_int notation of
             Some v \<Rightarrow> Inr ((v, []), g)
           | None \<Rightarrow> Inr ((0, []), g))
      | Some (n, m, md) \<Rightarrow>
          (let num_dice = int_of_digits n;
               die_size = int_of_digits m;
               modifier = (case md of
                             None \<Rightarrow> 0
                           | Some ms \<Rightarrow> (if hd ms = CHR ''-'' then - int_of_digits (tl ms)
                                        else int_of_digits (tl ms)))
           in case roll_each (nat num_dice) die_size g of
                Inl e \<Rightarrow> Inl e
              | Inr (rolls, g1) \<Rightarrow> Inr ((max 0 (sum_list rolls + modifier), rolls), g1)))"

text \<open>\<open>critical_hit_check\<close>: a natural 20 on a d20.\<close>

definition critical_hit_check :: "rng \<Rightarrow> bool \<times> rng" where
  "critical_hit_check g =
     (case randint 1 20 g of
        Inr (r, g1) \<Rightarrow> (r = 20, g1)
      | Inl e \<Rightarrow> (False, g))"

subsection \<open>Models (models/items.py, models/hero.py, models/combat.py, models/world.py)\<close>

text \<open>
  The pydantic models become records.  Fields that no modelled function reads (flavour
  text, emoji, the accessory slot, an enemy's weakness, resistance, special ability and
  loot table) are left out.  A \<open>Literal[...]\<close> field becomes a datatype: pydantic rejects
  every other string when the object is built.
\<close>

datatype tier = Common | Uncommon | Rare | Legendary | Epic

record Weapon =
  weapon_id :: string
  weapon_name :: string
  weapon_tier :: tier
  weapon_dice :: string
  weapon_drop_rate :: rat

record Armor =
  armor_id :: string
  armor_name :: string
  armor_tier :: tier
  protection :: int
  armor_drop_rate :: rat

text \<open>A consumable has no \<open>tier\<close> field.\<close>

record Consumable =
  consumable_id :: string
  consumable_name :: string
  consumable_drop_rate :: rat

text \<open>The union \<open>Weapon | Armor | Consumable\<close>.\<close>

datatype item = IWeapon Weapon | IArmor Armor | IConsumable Consumable

fun item_id :: "item \<Rightarrow> string" where
  "item_id (IWeapon w) = weapon_id w"
| "item_id (IArmor a) = armor_id a"
| "item_id (IConsumable c) = consumable_id c"

fun item_name :: "item \<Rightarrow> string" where
  "item_name (IWeapon w) = weapon_name w"
| "item_name (IArmor a) = armor_name a"
| "item_name (IConsumable c) = consumable_name c"

fun item_tier :: "item \<Rightarrow> tier option" where
  "item_tier (IWeapon w) = Some (weapon_tier w)"
| "item_tier (IArmor a) = Some (armor_tier a)"
| "item_tier (IConsumable c) = None"

fun item_drop_rate :: "item \<Rightarrow> rat" where
  "item_drop_rate (IWeapon w) = weapon_drop_rate w"
| "item_drop_rate (IArmor a) = armor_drop_rate a"
| "item_drop_rate (IConsumable c) = consumable_drop_rate c"

record EquipmentSlots =
  eq_weapon :: "Weapon option"
  eq_armor :: "Armor option"

record InventoryItem =
  item :: item
  quantity :: int

datatype effect_type =
  Rate_limited | Auth_expired | Transformed | Buffered | Cached | Debugging | Throttled

record StatusEffect =
  effect_name :: string
  effect_type :: effect_type
  duration :: int
  effect_description :: string

datatype role = Warrior | Mage | Rogue | Cleric

record Hero =
  name :: string
  role :: role
  level :: int
  xp :: int
  uptime :: int
  max_uptime :: int
  api_credits :: int
  max_api_credits :: int
  throughput :: int
  formula_power :: int
  rate_agility :: int
  error_resilience :: int
  inventory :: "InventoryItem list"
  equipped :: EquipmentSlots
  status_effects :: "StatusEffect list"
  gold :: int
  skills :: "string list"
  recipe_fragments :: int

datatype enemy_tier = ECommon | EUncommon | ERare | EBoss

record Enemy =
  enemy_id :: string
  enemy_name :: string
  hp :: int
  max_hp :: int
  damage_dice :: string
  armor :: int
  immune_until_examined :: bool
  xp_reward :: int
  gold_reward :: int
  enemy_tier :: enemy_tier
  is_examined :: bool

datatype turn = HeroTurn | EnemyTurn nat

text \<open>
  \<open>CombatState.enemies\<close> holds references to enemy objects of the current room, not
  copies: the entries are positions in the room's enemy list.
\<close>

record CombatState =
  active :: bool
  enemies :: "nat list"
  turn_order :: "turn list"
  current_turn_index :: int
  round_num :: int
  hero_defending :: bool
  hero_used_error_handler :: bool
  enemies_defeated :: int

datatype room_type = Corridor | Chamber | Treasure | Trap | Boss

record Room =
  room_id :: string
  room_type :: room_type
  system_name :: string
  description :: string
  exits :: "(string \<times> string) list"
  room_items :: "item list"
  room_enemies :: "Enemy list"
  is_cleared :: bool
  is_discovered :: bool
  room_depth :: int

record GameState =
  hero :: Hero
  current_room_id :: string
  dungeon_map :: "(string \<times> Room) list"
  combat :: "CombatState option"
  depth :: int
  turn_count :: int
  max_depth_reached :: int

subsection \<open>Configuration (config.py)\<close>

definition BASE_HP :: int where "BASE_HP = 100"
definition BASE_MP :: int where "BASE_MP = 50"

fun hp_mod :: "role \<Rightarrow> int" where
  "hp_mod Warrior = 20"
| "hp_mod Mage = - 10"
| "hp_mod Rogue = 0"
| "hp_mod Cleric = 10"

fun mp_mod :: "role \<Rightarrow> int" where
  "mp_mod Warrior = - 10"
| "mp_mod Mage = 30"
| "mp_mod Rogue = 0"
| "mp_mod Cleric = 15"

definition MAX_INVENTORY_SIZE :: nat where "MAX_INVENTORY_SIZE = 20"

definition DEFENSE_DAMAGE_REDUCTION :: rat where "DEFENSE_DAMAGE_REDUCTION = 1 / 2"

subsection \<open>Hero methods (models/hero.py)\<close>

definition calculate_max_uptime :: "Hero \<Rightarrow> int" where
  "calculate_max_uptime h =
     BASE_HP + hp_mod (role h) + error_resilience h * 5 + (recipe_fragments h div 3) * 5"

definition calculate_max_api_credits :: "Hero \<Rightarrow> int" where
  "calculate_max_api_credits h = BASE_MP + mp_mod (role h) + formula_power h * 3"

text \<open>
  \<open>add_to_inventory\<close>: the first entry with the same item id gets the quantity added;
  otherwise the item is appended unless the list is full.  The result is the returned
  flag and the inventory after the call.
\<close>

fun bump_quantity :: "InventoryItem list \<Rightarrow> string \<Rightarrow> int \<Rightarrow> InventoryItem list option" where
  "bump_quantity [] i q = None"
| "bump_quantity (e # es) i q =
     (if item_id (item e) = i then Some (e\<lparr>quantity := quantity e + q\<rparr> # es)
      else map_option (\<lambda>r. e # r) (bump_quantity es i q))"

definition add_to_inventory :: "Hero \<Rightarrow> item \<Rightarrow> int \<Rightarrow> bool \<times> Hero" where
  "add_to_inventory h it q =
     (case bump_quantity (inventory h) (item_id it) q of
        Some entries \<Rightarrow> (True, h\<lparr>inventory := entries\<rparr>)
      | None \<Rightarrow>
          if length (inventory h) \<ge> MAX_INVENTORY_SIZE then (False, h)
          else (True, h\<lparr>inventory := inventory h @ [\<lparr>item = it, quantity = q\<rparr>]\<rparr>))"

definition get_armor_value :: "Hero \<Rightarrow> int" where
  "get_armor_value h =
     foldl (\<lambda>base_armor e. if effect_type e = Cached then base_armor + 3 else base_armor)
       (case eq_armor (equipped h) of Some a \<Rightarrow> protection a | None \<Rightarrow> 0)
       (status_effects h)"

subsection \<open>Status effects (systems/effects.py)\<close>

text \<open>\<open>effect_type.replace("_", " ").title()\<close> on the seven admissible tags.\<close>

fun display_name :: "effect_type \<Rightarrow> string" where
  "display_name Rate_limited = ''Rate Limited''"
| "display_name Auth_expired = ''Auth Expired''"
| "display_name Transformed = ''Transformed''"
| "display_name Buffered = ''Buffered''"
| "display_name Cached = ''Cached''"
| "display_name Debugging = ''Debugging''"
| "display_name Throttled = ''Throttled''"

fun apply_effect_list ::
  "StatusEffect list \<Rightarrow> effect_type \<Rightarrow> int \<Rightarrow> string \<Rightarrow> StatusEffect list" where
  "apply_effect_list [] et d descr =
     [\<lparr>effect_name = display_name et, effect_type = et, duration = d,
       effect_description = descr\<rparr>]"
| "apply_effect_list (e # es) et d descr =
     (if effect_type e = et
      then (if d > duration e then e\<lparr>duration := d\<rparr> else e) # es
      else e # apply_effect_list es et d descr)"

definition apply_effect :: "Hero \<Rightarrow> effect_type \<Rightarrow> int \<Rightarrow> string \<Rightarrow> Hero" where
  "apply_effect h et d descr =
     h\<lparr>status_effects := apply_effect_list (status_effects h) et d descr\<rparr>"

text \<open>\<open>remove_effect\<close> pops the first effect of the given type.\<close>

fun remove_effect_list :: "StatusEffect list \<Rightarrow> effect_type \<Rightarrow> StatusEffect list" where
  "remove_effect_list [] et = []"
| "remove_effect_list (e # es) et =
     (if effect_type e = et then es else e # remove_effect_list es et)"

definition remove_effect :: "Hero \<Rightarrow> effect_type \<Rightarrow> bool \<times> Hero" where
  "remove_effect h et =
     (et \<in> effect_type ` set (status_effects h),
      h\<lparr>status_effects := remove_effect_list (status_effects h) et\<rparr>)"

text \<open>
  \<open>process_turn_effects\<close>: the first loop decrements every effect whose duration is not
  \<open>-1\<close> and records the type of each one that reached \<open>\<le> 0\<close>; the second loop calls
  \<open>remove_effect\<close> for each recorded type, in order.  The result lists the names of the
  expired effects (one message each) and the hero.
\<close>

definition decrement :: "StatusEffect \<Rightarrow> StatusEffect" where
  "decrement e = (if duration e = - 1 then e else e\<lparr>duration := duration e - 1\<rparr>)"

definition expired_now :: "StatusEffect \<Rightarrow> bool" where
  "expired_now e = (duration e \<noteq> - 1 \<and> duration e - 1 \<le> 0)"

definition process_turn_effects :: "Hero \<Rightarrow> string list \<times> Hero" where
  "process_turn_effects h =
     (let effects_to_remove = map effect_type (filter expired_now (status_effects h));
          messages = map effect_name (filter expired_now (status_effects h));
          ticked = map decrement (status_effects h)
      in (messages, h\<lparr>status_effects := foldl remove_effect_list ticked effects_to_remove\<rparr>))"

definition get_damage_modifier :: "Hero \<Rightarrow> rat" where
  "get_damage_modifier h =
     foldl (\<lambda>modifier e.
              if effect_type e = Buffered then modifier * (5 / 4)
              else if effect_type e = Auth_expired then modifier * (1 / 2)
              else modifier)
       1 (status_effects h)"

definition get_mp_cost_modifier :: "Hero \<Rightarrow> rat" where
  "get_mp_cost_modifier h =
     foldl (\<lambda>modifier e. if effect_type e = Throttled then modifier * (1 / 2) else modifier)
       1 (status_effects h)"

subsection \<open>Progression (systems/progression.py)\<close>

text \<open>
  \<open>int(100 * (level ** 1.5))\<close>.  For a negative level Python's power is a complex number
  and \<open>int\<close> raises \<open>TypeError\<close>.
\<close>

definition xp_value :: "int \<Rightarrow> int" where
  "xp_value lvl = \<lfloor>100 * (real_of_int lvl) powr (3 / 2)\<rfloor>"

definition xp_required_for_level :: "int \<Rightarrow> py_error + int" where
  "xp_required_for_level lvl = (if lvl < 0 then Inl TypeError else Inr (xp_value lvl))"

fun stat_growth :: "role \<Rightarrow> Hero \<Rightarrow> Hero" where
  "stat_growth Warrior h =
     h\<lparr>throughput := throughput h + 2, error_resilience := error_resilience h + 1\<rparr>"
| "stat_growth Mage h =
     h\<lparr>formula_power := formula_power h + 2, rate_agility := rate_agility h + 1\<rparr>"
| "stat_growth Rogue h =
     h\<lparr>rate_agility := rate_agility h + 2, throughput := throughput h + 1\<rparr>"
| "stat_growth Cleric h =
     h\<lparr>error_resilience := error_resilience h + 2, formula_power := formula_power h + 1\<rparr>"

definition apply_level_up :: "Hero \<Rightarrow> Hero" where
  "apply_level_up h0 =
     (let h1 = stat_growth (role h0) h0;
          h2 = h1\<lparr>max_uptime := calculate_max_uptime h1\<rparr>;
          h3 = h2\<lparr>max_api_credits := calculate_max_api_credits h2\<rparr>;
          h4 = h3\<lparr>uptime := max_uptime h3\<rparr>
      in h4\<lparr>api_credits := max_api_credits h4\<rparr>)"

definition add_gold :: "Hero \<Rightarrow> int \<Rightarrow> Hero" where
  "add_gold h amount = h\<lparr>gold := gold h + amount\<rparr>"

text \<open>
  The loop of \<open>add_experience\<close>.  Each round compares the running total with the
  requirement of the next level, subtracts it, increments the level, applies the level-up
  and draws one level-up message.  It terminates because the requirement of every level
  \<open>\<ge> 1\<close> is at least 100.
\<close>

lemma xp_value_ge_100: "1 \<le> lvl \<Longrightarrow> 100 \<le> xp_value lvl"
proof -
  assume "1 \<le> lvl"
  then have "1 \<le> real_of_int lvl powr (3 / 2)"
    by (intro ge_one_powr_ge_zero) auto
  then have "real_of_int 100 \<le> 100 * real_of_int lvl powr (3 / 2)" by simp
  then show ?thesis unfolding xp_value_def by (simp add: le_floor_iff)
qed

lemma xp_value_0: "xp_value 0 = 0"
  by (simp add: xp_value_def)

lemma level_up_keeps: "xp (apply_level_up h) = xp h" "level (apply_level_up h) = level h"
  by (cases "role h"; simp add: apply_level_up_def Let_def)+

function level_up_loop :: "Hero \<Rightarrow> bool \<Rightarrow> rng \<Rightarrow> py_error + (bool \<times> Hero \<times> rng)" where
  "level_up_loop h leveled_up g =
     (case xp_required_for_level (level h + 1) of
        Inl e \<Rightarrow> Inl e
      | Inr need \<Rightarrow>
          if xp h \<ge> need
          then level_up_loop (apply_level_up (h\<lparr>xp := xp h - need, level := level h + 1\<rparr>))
                 True (stl g)
          else Inr (leveled_up, h, g))"
  by pat_completeness auto
termination
proof (relation "measure (\<lambda>(h, l, g). nat (xp h) + (if level h < 0 then 1 else 0))")
  show "wf (measure (\<lambda>(h, l, g). nat (xp h) + (if level h < 0 then 1 else 0)))" by simp
next
  fix h :: Hero and leveled_up :: bool and g :: rng and need :: int
  assume r: "xp_required_for_level (level h + 1) = Inr need" and le: "need \<le> xp h"
  from r have lv: "0 \<le> level h + 1" and need: "need = xp_value (level h + 1)"
    by (auto simp: xp_required_for_level_def split: if_splits)
  show "((apply_level_up (h\<lparr>xp := xp h - need, level := level h + 1\<rparr>), True, stl g),
          (h, leveled_up, g))
        \<in> measure (\<lambda>(h, l, g). nat (xp h) + (if level h < 0 then 1 else 0))"
  proof (cases "level h = - 1")
    case True
    with need have "need = 0" by (simp add: xp_value_0)
    with True le show ?thesis by (simp add: level_up_keeps)
  next
    case False
    with lv have "1 \<le> level h + 1" by simp
    from xp_value_ge_100[OF this] need have "100 \<le> need" by simp
    with le lv False show ?thesis by (simp add: level_up_keeps)
  qed
qed

declare level_up_loop.simps [simp del]

definition add_experience :: "Hero \<Rightarrow> int \<Rightarrow> rng \<Rightarrow> py_error + (bool \<times> Hero \<times> rng)" where
  "add_experience h amount g = level_up_loop (h\<lparr>xp := xp h + amount\<rparr>) False g"



subsection \<open>Combat (systems/combat.py)\<close>

text \<open>
  \<open>random.shuffle\<close>: for \<open>i\<close> from \<open>len - 1\<close> down to 1, swap position \<open>i\<close> with a random
  position \<open>j \<le> i\<close>.
\<close>

fun shuffle_from :: "nat \<Rightarrow> 'a list \<Rightarrow> rng \<Rightarrow> 'a list \<times> rng" where
  "shuffle_from 0 xs g = (xs, g)"
| "shuffle_from (Suc k) xs g =
     (let i = Suc k; j = shd g mod (i + 1)
      in shuffle_from k (xs[i := xs ! j, j := xs ! i]) (stl g))"

definition random_shuffle :: "'a list \<Rightarrow> rng \<Rightarrow> 'a list \<times> rng" where
  "random_shuffle xs g = shuffle_from (length xs - 1) xs g"

definition initialize_combat :: "Hero \<Rightarrow> nat list \<Rightarrow> rng \<Rightarrow> CombatState \<times> rng" where
  "initialize_combat h es g =
     (let (order, g1) = random_shuffle (HeroTurn # map EnemyTurn [0..<length es]) g
      in (\<lparr>active = True, enemies = es, turn_order = order, current_turn_index = 0,
            round_num = 1, hero_defending = False, hero_used_error_handler = False,
            enemies_defeated = 0\<rparr>, g1))"

text \<open>The base damage: the weapon's dice, or 1 when unarmed.\<close>

definition weapon_roll :: "Weapon option \<Rightarrow> rng \<Rightarrow> py_error + (int \<times> rng)" where
  "weapon_roll weapon g =
     (case weapon of
        Some w \<Rightarrow>
          (case roll_dice (weapon_dice w) g of
             Inl e \<Rightarrow> Inl e
           | Inr ((base_damage, rolls), g1) \<Rightarrow> Inr (base_damage, g1))
      | None \<Rightarrow> Inr (1, g))"

definition target_armor :: "Enemy + Hero \<Rightarrow> int" where
  "target_armor target = (case target of Inl e \<Rightarrow> armor e | Inr h \<Rightarrow> get_armor_value h)"

definition calculate_damage ::
  "(string \<rightharpoonup> int) \<Rightarrow> Weapon option \<Rightarrow> Enemy + Hero \<Rightarrow> rat \<Rightarrow> bool \<Rightarrow> rng \<Rightarrow>
     py_error + ((int \<times> bool) \<times> rng)" where
  "calculate_damage attacker_stats weapon target skill_multiplier ignore_armor g =
     (case weapon_roll weapon g of
        Inl e \<Rightarrow> Inl e
      | Inr (base0, g1) \<Rightarrow>
          (let str_bonus =
                 (case attacker_stats ''throughput'' of Some t \<Rightarrow> t | None \<Rightarrow> 10) div 5;
               base1 = py_trunc (of_int (base0 + str_bonus) * skill_multiplier);
               (is_critical, g2) = critical_hit_check g1;
               base_damage = (if is_critical then base1 * 2 else base1);
               final_damage =
                 (if ignore_armor then base_damage
                  else max 1 (base_damage - target_armor target))
           in Inr ((final_damage, is_critical), g2)))"

record attack_result =
  success :: bool
  damage_dealt :: int
  enemy_defeated :: bool
  xp_gained :: int
  gold_gained :: int

definition hero_attack ::
  "Hero \<Rightarrow> Enemy \<Rightarrow> CombatState \<Rightarrow> rat \<Rightarrow> bool \<Rightarrow> rng \<Rightarrow>
     py_error + (attack_result \<times> Hero \<times> Enemy \<times> CombatState \<times> rng)" where
  "hero_attack h target combat_state skill_multiplier ignore_armor g =
     (if immune_until_examined target \<and> \<not> is_examined target
      then Inr (\<lparr>success = False, damage_dealt = 0, enemy_defeated = False, xp_gained = 0,
                  gold_gained = 0\<rparr>, h, target, combat_state, g)
      else
        case calculate_damage
               [''throughput'' \<mapsto> throughput h, ''formula_power'' \<mapsto> formula_power h]
               (eq_weapon (equipped h)) (Inl target) skill_multiplier ignore_armor g of
          Inl e \<Rightarrow> Inl e
        | Inr ((damage0, is_crit), g1) \<Rightarrow>
            (let damage = py_trunc (of_int damage0 * get_damage_modifier h);
                 hp1 = hp target - damage
             in if hp1 \<le> 0
                then Inr (\<lparr>success = True, damage_dealt = damage, enemy_defeated = True,
                            xp_gained = xp_reward target, gold_gained = gold_reward target\<rparr>,
                          h, target\<lparr>hp := 0\<rparr>,
                          combat_state\<lparr>enemies_defeated := enemies_defeated combat_state + 1\<rparr>,
                          g1)
                else Inr (\<lparr>success = True, damage_dealt = damage, enemy_defeated = False,
                            xp_gained = 0, gold_gained = 0\<rparr>,
                          h, target\<lparr>hp := hp1\<rparr>, combat_state, g1)))"

record enemy_attack_result =
  damage_taken :: int
  hero_defeated :: bool

text \<open>
  \<open>enemy_attack\<close>.  \<open>damage_taken\<close> is the entry \<open>damage_dealt\<close> of the result dictionary;
  the enemy and the combat state are only read.
\<close>

definition enemy_attack ::
  "Enemy \<Rightarrow> Hero \<Rightarrow> CombatState \<Rightarrow> rng \<Rightarrow> py_error + (enemy_attack_result \<times> Hero \<times> rng)" where
  "enemy_attack enemy h combat_state g =
     (case roll_dice (damage_dice enemy) g of
        Inl e \<Rightarrow> Inl e
      | Inr ((base_damage, rolls), g1) \<Rightarrow>
          (let damage1 =
                 (if hero_defending combat_state
                  then py_trunc (of_int base_damage * (1 - DEFENSE_DAMAGE_REDUCTION))
                  else base_damage);
               armor_value = get_armor_value h;
               damage = (if armor_value > 0 then max 1 (damage1 - armor_value) else damage1);
               uptime1 = uptime h - damage
           in if uptime1 \<le> 0
              then Inr (\<lparr>damage_taken = damage, hero_defeated = True\<rparr>, h\<lparr>uptime := 0\<rparr>, g1)
              else Inr (\<lparr>damage_taken = damage, hero_defeated = False\<rparr>,
                        h\<lparr>uptime := uptime1\<rparr>, g1)))"

subsection \<open>Dungeon generation (systems/generation.py)\<close>

text \<open>
  The tables loaded from the JSON files are a parameter.  A template is the record that
  \<open>Weapon(**item_data)\<close>, \<open>Armor(**item_data)\<close>, \<open>Consumable(**item_data)\<close> or
  \<open>Enemy(**enemy_template)\<close> builds from it; every table key is taken to be present.
\<close>

record game_data =
  enemy_data :: "enemy_tier \<Rightarrow> Enemy list"
  weapons :: "Weapon list"
  armors :: "Armor list"
  consumables :: "Consumable list"
  description_data :: "room_type \<Rightarrow> string list"
  system_names :: "room_type \<Rightarrow> string list"

datatype item_kind = Weapons | Armors | Consumables

fun item_pool :: "game_data \<Rightarrow> item_kind \<Rightarrow> item list" where
  "item_pool d Weapons = map IWeapon (weapons d)"
| "item_pool d Armors = map IArmor (armors d)"
| "item_pool d Consumables = map IConsumable (consumables d)"

text \<open>
  The comprehension \<open>[item for item in item_pool if random.random() < drop_rate]\<close>: one
  draw per candidate, in order.
\<close>

fun drop_filter :: "item list \<Rightarrow> rng \<Rightarrow> item list \<times> rng" where
  "drop_filter [] g = ([], g)"
| "drop_filter (x # xs) g =
     (let (r, g1) = random_random g;
          (rest, g2) = drop_filter xs g1
      in (if r < item_drop_rate x then x # rest else rest, g2))"

text \<open>
  \<open>_generate_loot\<close>.  The parameters \<open>depth\<close> and \<open>min_tier\<close> are accepted and never
  read by the body.
\<close>

fun generate_loot ::
  "game_data \<Rightarrow> int \<Rightarrow> tier \<Rightarrow> nat \<Rightarrow> rng \<Rightarrow> py_error + (item list \<times> rng)" where
  "generate_loot d dep min_tier 0 g = Inr ([], g)"
| "generate_loot d dep min_tier (Suc k) g =
     (case random_choice [Weapons, Armors, Consumables] g of
        Inl e \<Rightarrow> Inl e
      | Inr (item_type, g1) \<Rightarrow>
          (let (available_items, g2) = drop_filter (item_pool d item_type) g1
           in if available_items = []
              then generate_loot d dep min_tier k g2
              else
                case random_choice available_items g2 of
                  Inl e \<Rightarrow> Inl e
                | Inr (it, g3) \<Rightarrow>
                    (case generate_loot d dep min_tier k g3 of
                       Inl e \<Rightarrow> Inl e
                     | Inr (loot, g4) \<Rightarrow> Inr (it # loot, g4))))"

text \<open>An enemy built from a template, its health scaled by a factor.\<close>

definition scale_enemy :: "rat \<Rightarrow> Enemy \<Rightarrow> Enemy" where
  "scale_enemy hp_multiplier template =
     (let scaled = py_trunc (of_int (hp template) * hp_multiplier)
      in template\<lparr>hp := scaled, max_hp := scaled\<rparr>)"

fun spawn_enemies ::
  "Enemy list \<Rightarrow> int \<Rightarrow> nat \<Rightarrow> rng \<Rightarrow> py_error + (Enemy list \<times> rng)" where
  "spawn_enemies enemy_pool dep 0 g = Inr ([], g)"
| "spawn_enemies enemy_pool dep (Suc k) g =
     (case random_choice enemy_pool g of
        Inl e \<Rightarrow> Inl e
      | Inr (template, g1) \<Rightarrow>
          (case spawn_enemies enemy_pool dep k g1 of
             Inl e \<Rightarrow> Inl e
           | Inr (rest, g2) \<Rightarrow>
               Inr (scale_enemy (1 + of_int dep * (1 / 10)) template # rest, g2)))"

definition generate_enemies ::
  "game_data \<Rightarrow> int \<Rightarrow> room_type \<Rightarrow> rng \<Rightarrow> py_error + (Enemy list \<times> rng)" where
  "generate_enemies d dep rt g =
     (case (if dep \<le> 3 then map_sum id (\<lambda>(c, g1). (ECommon, c, g1)) (randint 1 2 g)
            else if dep \<le> 6 then map_sum id (\<lambda>(c, g1). (EUncommon, c, g1)) (randint 1 3 g)
            else if dep \<le> 9 then map_sum id (\<lambda>(c, g1). (ERare, c, g1)) (randint 1 2 g)
            else
              case random_choice [EUncommon, ERare] g of
                Inl e \<Rightarrow> Inl e
              | Inr (t, g1) \<Rightarrow> map_sum id (\<lambda>(c, g2). (t, c, g2)) (randint 2 3 g1)) of
        Inl e \<Rightarrow> Inl e
      | Inr (t, count, g1) \<Rightarrow> spawn_enemies (enemy_data d t) dep (nat count) g1)"

text \<open>Python list indexing: a negative index counts from the end.\<close>

definition py_index :: "'a list \<Rightarrow> int \<Rightarrow> py_error + 'a" where
  "py_index xs i =
     (let n = int (length xs); j = (if i < 0 then n + i else i)
      in if 0 \<le> j \<and> j < n then Inr (xs ! nat j) else Inl IndexError)"

definition generate_boss_enemy :: "game_data \<Rightarrow> int \<Rightarrow> py_error + Enemy list" where
  "generate_boss_enemy d dep =
     (let boss_pool = enemy_data d EBoss;
          boss_index0 = dep div 5 - 1;
          boss_index = (if boss_index0 \<ge> int (length boss_pool) then int (length boss_pool) - 1
                        else boss_index0)
      in case py_index boss_pool boss_index of
           Inl e \<Rightarrow> Inl e
         | Inr template \<Rightarrow> Inr [scale_enemy (1 + of_int dep * (1 / 20)) template])"

text \<open>The text of a number and of a room type, for the room id.\<close>

fun str_nat :: "nat \<Rightarrow> string" where
  "str_nat n =
     (if n < 10 then [''0123456789'' ! n]
      else str_nat (n div 10) @ [''0123456789'' ! (n mod 10)])"

declare str_nat.simps [simp del]

definition str_int :: "int \<Rightarrow> string" where
  "str_int i = (if i < 0 then CHR ''-'' # str_nat (nat (- i)) else str_nat (nat i))"

fun room_type_str :: "room_type \<Rightarrow> string" where
  "room_type_str Corridor = ''corridor''"
| "room_type_str Chamber = ''chamber''"
| "room_type_str Treasure = ''treasure''"
| "room_type_str Trap = ''trap''"
| "room_type_str Boss = ''boss''"

text \<open>
  \<open>random.choices\<close> over corridor, chamber, treasure, trap with the weights 0.40, 0.30,
  0.15, 0.15: one draw, located in the cumulative weights.
\<close>

definition choose_room_type :: "rng \<Rightarrow> room_type \<times> rng" where
  "choose_room_type g =
     (let (r, g1) = random_random g
      in (if r < 2 / 5 then Corridor
          else if r < 7 / 10 then Chamber
          else if r < 17 / 20 then Treasure
          else Trap, g1))"

definition populate ::
  "game_data \<Rightarrow> int \<Rightarrow> Room \<Rightarrow> rng \<Rightarrow> py_error + (Room \<times> rng)" where
  "populate d dep room g =
     (if room_type room = Corridor \<or> room_type room = Chamber then
        (case generate_enemies d dep (room_type room) g of
           Inl e \<Rightarrow> Inl e
         | Inr (es, g1) \<Rightarrow>
             (case randint 0 2 g1 of
                Inl e \<Rightarrow> Inl e
              | Inr (q, g2) \<Rightarrow>
                  (case generate_loot d dep Common (nat q) g2 of
                     Inl e \<Rightarrow> Inl e
                   | Inr (loot, g3) \<Rightarrow>
                       Inr (room\<lparr>room_enemies := es, room_items := loot\<rparr>, g3))))
      else if room_type room = Treasure then
        (case randint 2 4 g of
           Inl e \<Rightarrow> Inl e
         | Inr (q, g1) \<Rightarrow>
             (case generate_loot d dep Uncommon (nat q) g1 of
                Inl e \<Rightarrow> Inl e
              | Inr (loot, g2) \<Rightarrow> Inr (room\<lparr>room_items := loot\<rparr>, g2)))
      else if room_type room = Trap then
        (case generate_enemies d dep (room_type room) g of
           Inl e \<Rightarrow> Inl e
         | Inr (es, g1) \<Rightarrow> Inr (room\<lparr>room_enemies := es\<rparr>, g1))
      else
        (case generate_boss_enemy d dep of
           Inl e \<Rightarrow> Inl e
         | Inr es \<Rightarrow> Inr (room\<lparr>room_enemies := es\<rparr>, g)))"

definition generate_room ::
  "game_data \<Rightarrow> int \<Rightarrow> room_type option \<Rightarrow> rng \<Rightarrow> py_error + (Room \<times> rng)" where
  "generate_room d dep requested g =
     (let (rt, g1) =
            (case requested of
               Some t \<Rightarrow> (t, g)
             | None \<Rightarrow> if dep mod 5 = 0 then (Boss, g) else choose_room_type g)
      in case randint 1000 9999 g1 of
           Inl e \<Rightarrow> Inl e
         | Inr (n, g2) \<Rightarrow>
             (case random_choice (description_data d rt) g2 of
                Inl e \<Rightarrow> Inl e
              | Inr (descr, g3) \<Rightarrow>
                  (case random_choice (system_names d rt) g3 of
                     Inl e \<Rightarrow> Inl e
                   | Inr (sys, g4) \<Rightarrow>
                       populate d dep
                         \<lparr>room_id = room_type_str rt @ ''_'' @ str_int dep @ ''_'' @ str_int n,
                          room_type = rt, system_name = sys, description = descr,
                          exits = [], room_items = [], room_enemies = [],
                          is_cleared = False, is_discovered = False, room_depth = dep\<rparr>
                         g4)))"

subsection \<open>Tool handlers (server.py)\<close>

text \<open>The substring test \<open>sub in s\<close>.\<close>

fun starts_with :: "string \<Rightarrow> string \<Rightarrow> bool" where
  "starts_with s [] = True"
| "starts_with [] (c # sub) = False"
| "starts_with (a # s) (c # sub) = (a = c \<and> starts_with s sub)"

fun contains :: "string \<Rightarrow> string \<Rightarrow> bool" where
  "contains [] sub = (sub = [])"
| "contains (a # s) sub = (starts_with (a # s) sub \<or> contains s sub)"

definition matches :: "string \<Rightarrow> Enemy \<Rightarrow> bool" where
  "matches target e = (contains (lower (enemy_name e)) (lower target) \<and> hp e > 0)"

text \<open>
  The enemy loop of \<open>examine\<close>: the first living enemy whose name contains the target is
  marked examined and the handler returns.  \<open>None\<close> when no enemy matches (the handler
  then goes on to the room's items, which is not modelled).
\<close>

fun examine_enemies :: "string \<Rightarrow> Enemy list \<Rightarrow> Enemy list option" where
  "examine_enemies target [] = None"
| "examine_enemies target (e # es) =
     (if matches target e then Some (e\<lparr>is_examined := True\<rparr> # es)
      else map_option (\<lambda>r. e # r) (examine_enemies target es))"

definition examine :: "string \<Rightarrow> Room \<Rightarrow> Room option" where
  "examine target room =
     map_option (\<lambda>es. room\<lparr>room_enemies := es\<rparr>) (examine_enemies target (room_enemies room))"

text \<open>The position of the first living enemy whose name contains the target.\<close>

fun find_enemy :: "string \<Rightarrow> Enemy list \<Rightarrow> nat option" where
  "find_enemy target [] = None"
| "find_enemy target (e # es) =
     (if matches target e then Some 0 else map_option Suc (find_enemy target es))"

text \<open>An entry of \<open>skills.json\<close>; the multiplier and the armour flag are optional keys.\<close>

record skill =
  skill_id :: string
  cost :: int
  damage_multiplier :: "rat option"
  ignore_armor :: "bool option"

text \<open>
  The loop over \<open>skills_data.values()\<close>: the first skill with the given id in the first
  role list that has one.
\<close>

fun find_skill :: "skill list list \<Rightarrow> string \<Rightarrow> skill option" where
  "find_skill [] sid = None"
| "find_skill (role_skills # others) sid =
     (case find (\<lambda>s. skill_id s = sid) role_skills of
        Some s \<Rightarrow> Some s
      | None \<Rightarrow> find_skill others sid)"

definition is_in_combat :: "GameState \<Rightarrow> bool" where
  "is_in_combat gs = (case combat gs of Some c \<Rightarrow> active c | None \<Rightarrow> False)"

definition get_current_room :: "GameState \<Rightarrow> py_error + Room" where
  "get_current_room gs =
     (case map_of (dungeon_map gs) (current_room_id gs) of
        Some r \<Rightarrow> Inr r
      | None \<Rightarrow> Inl KeyError)"

text \<open>The room object is mutated in place: its entry of the map is replaced.\<close>

definition set_current_room :: "GameState \<Rightarrow> Room \<Rightarrow> GameState" where
  "set_current_room gs room =
     gs\<lparr>dungeon_map :=
          map (\<lambda>(k, r). if k = current_room_id gs then (k, room) else (k, r)) (dungeon_map gs)\<rparr>"

text \<open>
  The enemy turn of \<open>attack\<close>: every enemy alive after the hero's attack strikes once; the
  loop stops at the first strike that defeats the hero.
\<close>

fun enemy_turn ::
  "Enemy list \<Rightarrow> Hero \<Rightarrow> CombatState \<Rightarrow> rng \<Rightarrow> py_error + (bool \<times> Hero \<times> rng)" where
  "enemy_turn [] h c g = Inr (False, h, g)"
| "enemy_turn (e # es) h c g =
     (case enemy_attack e h c g of
        Inl err \<Rightarrow> Inl err
      | Inr (res, h1, g1) \<Rightarrow>
          if hero_defeated res then Inr (True, h1, stl g1) else enemy_turn es h1 c g1)"

datatype attack_outcome =
  NoGame | InvalidTarget | SkillNotFound | InsufficientCredits
  | GameOver attack_result | Resolved attack_result

definition all_defeated :: "Enemy list \<Rightarrow> bool" where
  "all_defeated es = list_all (\<lambda>e. hp e \<le> 0) es"

text \<open>
  The part of \<open>attack\<close> after the skill's cost is paid: the hero's strike, then either
  the victory branch (rewards of every enemy of the room) or the enemy turn.
\<close>

definition resolve_attack ::
  "GameState \<Rightarrow> Room \<Rightarrow> nat \<Rightarrow> CombatState \<Rightarrow> skill \<Rightarrow> rng \<Rightarrow>
     py_error + (attack_outcome \<times> GameState \<times> rng)" where
  "resolve_attack gs room i c sk g =
     (case hero_attack (hero gs) (room_enemies room ! i) c
             (case damage_multiplier sk of Some m \<Rightarrow> m | None \<Rightarrow> 1)
             (case ignore_armor sk of Some b \<Rightarrow> b | None \<Rightarrow> False) g of
        Inl e \<Rightarrow> Inl e
      | Inr (result, h1, target1, c1, g1) \<Rightarrow>
          (let room1 = room\<lparr>room_enemies := (room_enemies room)[i := target1]\<rparr>
           in if all_defeated (room_enemies room1)
              then
                (let room2 = room1\<lparr>is_cleared := True\<rparr>;
                     total_xp = sum_list (map xp_reward (room_enemies room2));
                     total_gold = sum_list (map gold_reward (room_enemies room2))
                 in case add_experience h1 total_xp (stl g1) of
                      Inl e \<Rightarrow> Inl e
                    | Inr (leveled_up, h2, g2) \<Rightarrow>
                        Inr (Resolved result,
                             (set_current_room gs room2)
                               \<lparr>hero := add_gold h2 total_gold, combat := None\<rparr>, g2))
              else
                case enemy_turn (filter (\<lambda>e. hp e > 0) (room_enemies room1)) h1 c1 g1 of
                  Inl e \<Rightarrow> Inl e
                | Inr (defeated, h2, g2) \<Rightarrow>
                    Inr (if defeated then GameOver result else Resolved result,
                         (set_current_room gs room1)\<lparr>hero := h2, combat := Some c1\<rparr>, g2)))"

text \<open>
  \<open>if not game_state.is_in_combat(): game_state.combat = initialize_combat(...)\<close>: the
  running combat, or a new one over the room's living enemies.
\<close>

definition current_combat :: "GameState \<Rightarrow> Room \<Rightarrow> rng \<Rightarrow> CombatState \<times> rng" where
  "current_combat gs room g =
     (let alive_enemies = filter (\<lambda>j. hp (room_enemies room ! j) > 0)
                            [0..<length (room_enemies room)]
      in case (if is_in_combat gs then combat gs else None) of
           Some c \<Rightarrow> (c, g)
         | None \<Rightarrow> initialize_combat (hero gs) alive_enemies g)"

definition attack ::
  "skill list list \<Rightarrow> string \<Rightarrow> string \<Rightarrow> GameState option \<Rightarrow> rng \<Rightarrow>
     py_error + (attack_outcome \<times> GameState option \<times> rng)" where
  "attack skills_data target skill_name state g =
     (case state of
        None \<Rightarrow> Inr (NoGame, None, g)
      | Some gs \<Rightarrow>
          (case get_current_room gs of
             Inl e \<Rightarrow> Inl e
           | Inr room \<Rightarrow>
               (case find_enemy target (room_enemies room) of
                  None \<Rightarrow> Inr (InvalidTarget, Some gs, g)
                | Some i \<Rightarrow>
                    (let (c, g1) = current_combat gs room g;
                         gs1 = gs\<lparr>combat := Some c\<rparr>
                     in case find_skill skills_data skill_name of
                          None \<Rightarrow> Inr (SkillNotFound, Some gs1, g1)
                        | Some sk \<Rightarrow>
                            (let mp_cost =
                                   py_trunc (of_int (cost sk) * get_mp_cost_modifier (hero gs1))
                             in if api_credits (hero gs1) < mp_cost
                                then Inr (InsufficientCredits, Some gs1, g1)
                                else
                                  map_sum id (\<lambda>(out, gs2, g2). (out, Some gs2, g2))
                                    (resolve_attack
                                       (gs1\<lparr>hero := (hero gs1)
                                               \<lparr>api_credits := api_credits (hero gs1) - mp_cost\<rparr>\<rparr>)
                                       room i c sk g1))))))"

subsection \<open>The damage rule as the specification words it\<close>

text \<open>
  The weapon's roll plus \<open>offense // 5\<close>, times the skill multiplier (truncated), doubled
  on a critical hit; then, unless armour is ignored, the armour is subtracted and the
  result is clamped to at least 1.
\<close>

definition spec_final_damage :: "int \<Rightarrow> int \<Rightarrow> rat \<Rightarrow> bool \<Rightarrow> bool \<Rightarrow> int \<Rightarrow> int" where
  "spec_final_damage roll offense multiplier crit ignore a =
     (let base = py_trunc (of_int (roll + offense div 5) * multiplier);
          doubled = (if crit then 2 * base else base)
      in if ignore then doubled else max 1 (doubled - a))"

subsection \<open>Sample objects (tests/conftest.py)\<close>

text \<open>
  The warrior of the test fixtures, here without equipment, and the fixture
  \<open>weak_enemy\<close>.
\<close>

definition example_hero :: Hero where
  "example_hero =
     \<lparr>name = ''TestWarrior'', role = Warrior, level = 1, xp = 0, uptime = 120, max_uptime = 120,
      api_credits = 40, max_api_credits = 40, throughput = 14, formula_power = 10,
      rate_agility = 10, error_resilience = 12, inventory = [],
      equipped = \<lparr>eq_weapon = None, eq_armor = None\<rparr>, status_effects = [], gold = 0,
      skills = [''bulk_upsert'', ''force_sync'', ''throughput_surge''], recipe_fragments = 0\<rparr>"

definition weak_enemy :: Enemy where
  "weak_enemy =
     \<lparr>enemy_id = ''test_weak_enemy'', enemy_name = ''Test Weak Enemy'', hp = 1, max_hp = 1,
      damage_dice = ''1d1'', armor = 0, immune_until_examined = False, xp_reward = 10,
      gold_reward = 5, enemy_tier = ECommon, is_examined = False\<rparr>"

definition job_retry_potion :: item where
  "job_retry_potion =
     IConsumable \<lparr>consumable_id = ''job_retry_potion'', consumable_name = ''Job Retry Potion'',
       consumable_drop_rate = 1 / 2\<rparr>"

text \<open>
  A weapon, the warrior armed with it, an armoured enemy, an enemy that is immune until
  examined, and the warrior under the \<open>auth_expired\<close> effect.
\<close>

definition http_client :: Weapon where
  "http_client =
     \<lparr>weapon_id = ''http_client'', weapon_name = ''HTTP Client'', weapon_tier = Common,
      weapon_dice = ''2d6'', weapon_drop_rate = 1 / 2\<rparr>"


definition guardian :: Enemy where
  "guardian =
     \<lparr>enemy_id = ''rate_limit_guardian'', enemy_name = ''Rate Limit Guardian'', hp = 30,
      max_hp = 30, damage_dice = ''1d8'', armor = 2, immune_until_examined = False,
      xp_reward = 40, gold_reward = 15, enemy_tier = EUncommon, is_examined = False\<rparr>"

definition undocumented_api :: Enemy where
  "undocumented_api =
     \<lparr>enemy_id = ''undocumented_api'', enemy_name = ''Undocumented API'', hp = 40,
      max_hp = 40, damage_dice = ''2d6'', armor = 3, immune_until_examined = True,
      xp_reward = 80, gold_reward = 30, enemy_tier = ERare, is_examined = False\<rparr>"

definition locked_out_hero :: Hero where
  "locked_out_hero =
     example_hero\<lparr>status_effects :=
       [\<lparr>effect_name = ''Auth Expired'', effect_type = Auth_expired, duration = 3,
         effect_description = ''Token expired''\<rparr>]\<rparr>"


text \<open>
  A skill table with the basic attack; a room holding an enemy defeated earlier and the
  weak enemy, the game in that room and the game after the winning attack; a room with
  one armoured enemy, the game there, the combat the first attack starts, and the game
  after that attack.
\<close>

definition basic_skills :: "skill list list" where
  "basic_skills =
     [[\<lparr>skill_id = ''basic_attack'', cost = 0, damage_multiplier = None, ignore_armor = None\<rparr>]]"

definition arena_room :: Room where
  "arena_room =
     \<lparr>room_id = ''corridor_1_1000'', room_type = Corridor, system_name = ''Legacy FTP'',
      description = ''A damp corridor.'', exits = [], room_items = [],
      room_enemies = [guardian\<lparr>hp := 0\<rparr>, weak_enemy], is_cleared = False,
      is_discovered = True, room_depth = 1\<rparr>"

definition arena :: GameState where
  "arena =
     \<lparr>hero = example_hero, current_room_id = ''corridor_1_1000'',
      dungeon_map = [(''corridor_1_1000'', arena_room)], combat = None, depth = 1,
      turn_count = 0, max_depth_reached = 1\<rparr>"

definition arena_won :: GameState where
  "arena_won =
     arena\<lparr>hero := example_hero\<lparr>xp := 50, gold := 20\<rparr>,
           dungeon_map :=
             [(''corridor_1_1000'',
               arena_room\<lparr>room_enemies := [guardian\<lparr>hp := 0\<rparr>, weak_enemy\<lparr>hp := 0\<rparr>],
                          is_cleared := True\<rparr>)]\<rparr>"

definition skirmish_room :: Room where
  "skirmish_room = arena_room\<lparr>room_enemies := [guardian]\<rparr>"

definition skirmish :: GameState where
  "skirmish = arena\<lparr>dungeon_map := [(''corridor_1_1000'', skirmish_room)]\<rparr>"

definition skirmish_combat :: CombatState where
  "skirmish_combat =
     \<lparr>active = True, enemies = [0], turn_order = [EnemyTurn 0, HeroTurn],
      current_turn_index = 0, round_num = 1, hero_defending = False,
      hero_used_error_handler = False, enemies_defeated = 0\<rparr>"

definition skirmish_after :: GameState where
  "skirmish_after =
     skirmish\<lparr>hero := example_hero\<lparr>uptime := 119\<rparr>,
              dungeon_map :=
                [(''corridor_1_1000'', skirmish_room\<lparr>room_enemies := [guardian\<lparr>hp := 29\<rparr>]\<rparr>)],
              combat := Some skirmish_combat\<rparr>"

text \<open>
  Template tables with a single common weapon, and the treasure room generated from them
  at depth 2.
\<close>

definition vault_data :: game_data where
  "vault_data =
     \<lparr>enemy_data = (\<lambda>t. []),
      weapons = [http_client],
      armors = [],
      consumables = [],
      description_data = (\<lambda>t. [''A vault of forgotten payloads.'']),
      system_names = (\<lambda>t. [''Archive Vault''])\<rparr>"

definition vault :: Room where
  "vault =
     \<lparr>room_id = ''treasure_2_1000'', room_type = Treasure, system_name = ''Archive Vault'',
      description = ''A vault of forgotten payloads.'', exits = [],
      room_items = [IWeapon http_client, IWeapon http_client], room_enemies = [],
      is_cleared = False, is_discovered = False, room_depth = 2\<rparr>"

text \<open>A combat state in which the hero has taken the defensive stance.\<close>

definition defending :: CombatState where
  "defending =
     \<lparr>active = True, enemies = [0], turn_order = [HeroTurn, EnemyTurn 0],
      current_turn_index = 0, round_num = 1, hero_defending = True,
      hero_used_error_handler = False, enemies_defeated = 0\<rparr>"

text \<open>A permanent effect: the duration is the sentinel \<open>-1\<close>.\<close>

definition permanent_cache :: StatusEffect where
  "permanent_cache =
     \<lparr>effect_name = ''Cached'', effect_type = Cached, duration = - 1,
      effect_description = ''Responses are cached''\<rparr>"

text \<open>The item ids held by an inventory, in order.\<close>

definition ids :: "InventoryItem list \<Rightarrow> string list" where
  "ids es = map (\<lambda>e. item_id (item e)) es"

section \<open>Properties\<close>

subsection \<open>Truncation\<close>

lemma py_trunc_frac:
  "0 < b \<Longrightarrow> py_trunc (of_int a / of_int b) = (if 0 \<le> a then a div b else - ((- a) div b))"
proof -
  assume b: "0 < b"
  have f: "\<lfloor>(of_int a :: rat) / of_int b\<rfloor> = a div b" by (simp add: floor_divide_of_int_eq)
  have c: "\<lceil>(of_int a :: rat) / of_int b\<rceil> = - ((- a) div b)"
  proof -
    have "\<lceil>(of_int a :: rat) / of_int b\<rceil> = - \<lfloor>(of_int (- a) :: rat) / of_int b\<rfloor>"
      by (simp add: ceiling_def)
    then show ?thesis by (simp only: floor_divide_of_int_eq)
  qed
  have s: "(0 \<le> (of_int a :: rat) / of_int b) = (0 \<le> a)"
    using b by (simp add: zero_le_divide_iff)
  show ?thesis unfolding py_trunc_def s using f c by simp
qed


subsection \<open>Dice\<close>

lemma randint_range:
  "a \<le> b \<Longrightarrow> \<exists>r. randint a b g = Inr (r, stl g) \<and> a \<le> r \<and> r \<le> b"
  unfolding randint_def
  apply simp
  by (smt (verit) Euclidean_Rings.pos_mod_bound int_nat_eq nat_int of_nat_0_le_iff of_nat_mod zmod_int)





lemma dropWhile_digits_all:
  "\<forall>c\<in>set ns. is_digit c \<Longrightarrow> dropWhile is_digit ns = []"
  by (induction ns) auto














lemmas text_eval = dice_match_def strip_def lower_def lower_char_def is_space_def is_digit_def
  Let_def

lemmas digits_eval = int_of_digits_def digit_val_def


subsection \<open>Inventory\<close>

lemma bump_None: "bump_quantity es i q = None \<longleftrightarrow> i \<notin> set (ids es)"
  by (induction es) (auto simp: ids_def)

lemma bump_Some:
  "bump_quantity es i q = Some es' \<Longrightarrow>
     \<exists>pre e post. es = pre @ e # post \<and> item_id (item e) = i \<and> i \<notin> set (ids pre) \<and>
        es' = pre @ e\<lparr>quantity := quantity e + q\<rparr> # post"
proof (induction es arbitrary: es')
  case Nil
  then show ?case by simp
next
  case (Cons a es)
  show ?case
  proof (cases "item_id (item a) = i")
    case True
    with Cons.prems have "es' = a\<lparr>quantity := quantity a + q\<rparr> # es" by simp
    with True show ?thesis
      by (intro exI[of _ "[]"] exI[of _ a] exI[of _ es]) (simp add: ids_def)
  next
    case False
    with Cons.prems obtain r where r: "bump_quantity es i q = Some r" "es' = a # r" by auto
    from Cons.IH[OF r(1)] obtain pre e post where
      "es = pre @ e # post" "item_id (item e) = i" "i \<notin> set (ids pre)"
      "r = pre @ e\<lparr>quantity := quantity e + q\<rparr> # post" by blast
    with False r(2) show ?thesis
      by (intro exI[of _ "a # pre"] exI[of _ e] exI[of _ post]) (simp add: ids_def)
  qed
qed

text \<open>
  Claim C10.  \<open>add_to_inventory\<close> keeps the inventory within \<open>MAX_INVENTORY_SIZE\<close>
  entries.  It returns \<open>False\<close> exactly when the item's id is absent and the inventory is
  full.  When an entry with the id exists the call succeeds, also on a full inventory, by
  adding the quantity to the first such entry; so the cap bounds distinct ids, not the
  number of items held.
\<close>

theorem add_to_inventory_capacity:
  "length (inventory h) \<le> MAX_INVENTORY_SIZE \<longrightarrow>
     length (inventory (snd (add_to_inventory h it q))) \<le> MAX_INVENTORY_SIZE \<and>
     (\<not> fst (add_to_inventory h it q) \<longleftrightarrow>
        item_id it \<notin> set (ids (inventory h)) \<and> length (inventory h) = MAX_INVENTORY_SIZE) \<and>
     (item_id it \<in> set (ids (inventory h)) \<longrightarrow>
        fst (add_to_inventory h it q) \<and>
        (\<exists>pre e post.
           inventory h = pre @ e # post \<and> item_id (item e) = item_id it \<and>
           item_id it \<notin> set (ids pre) \<and>
           inventory (snd (add_to_inventory h it q)) =
             pre @ e\<lparr>quantity := quantity e + q\<rparr> # post)) \<and>
     (item_id it \<notin> set (ids (inventory h)) \<and> length (inventory h) < MAX_INVENTORY_SIZE \<longrightarrow>
        fst (add_to_inventory h it q) \<and>
        inventory (snd (add_to_inventory h it q)) = inventory h @ [\<lparr>item = it, quantity = q\<rparr>])"
proof (cases "bump_quantity (inventory h) (item_id it) q")
  case None
  then have n: "item_id it \<notin> set (ids (inventory h))" by (simp add: bump_None)
  with None show ?thesis
    by (auto simp: add_to_inventory_def)
next
  case (Some es')
  then have i: "item_id it \<in> set (ids (inventory h))"
    using bump_None[of "inventory h" "item_id it" q] by auto
  from bump_Some[OF Some] obtain pre e post where
    d: "inventory h = pre @ e # post" "item_id (item e) = item_id it"
       "item_id it \<notin> set (ids pre)" "es' = pre @ e\<lparr>quantity := quantity e + q\<rparr> # post" by blast
  have r: "add_to_inventory h it q = (True, h\<lparr>inventory := es'\<rparr>)"
    using Some by (simp add: add_to_inventory_def)
  have l: "length es' = length (inventory h)" using d by simp
  show ?thesis using i d l unfolding r by auto
qed

theorem add_to_inventory_capacity_witness:
  "length (inventory (example_hero\<lparr>inventory := [\<lparr>item = job_retry_potion, quantity = 1\<rparr>]\<rparr>))
     \<le> MAX_INVENTORY_SIZE \<and>
   add_to_inventory (example_hero\<lparr>inventory := [\<lparr>item = job_retry_potion, quantity = 1\<rparr>]\<rparr>)
     job_retry_potion 2 =
     (True, example_hero\<lparr>inventory := [\<lparr>item = job_retry_potion, quantity = 3\<rparr>]\<rparr>)"
  using add_to_inventory_capacity
    [of "example_hero\<lparr>inventory := [\<lparr>item = job_retry_potion, quantity = 1\<rparr>]\<rparr>"
        job_retry_potion 2]
  by (simp add: add_to_inventory_def MAX_INVENTORY_SIZE_def job_retry_potion_def ids_def)

lemma py_trunc_numeral: "py_trunc (numeral n) = numeral n" "py_trunc 0 = 0" "py_trunc 1 = 1"
  by (simp_all add: py_trunc_def)

subsection \<open>Enemy attacks\<close>

lemma roll_1d1: "roll_dice ''1d1'' g = Inr ((1, [1]), stl g)"
proof -
  have m: "dice_match (strip (lower ''1d1'')) = Some (''1'', ''1'', None)"
    by (simp add: text_eval)
  show ?thesis
    unfolding roll_dice_def m
    by (simp add: digits_eval randint_def)
qed

lemma enemy_attack_clamps:
  "enemy_attack e h c g = Inr (res, h', g') \<Longrightarrow>
     0 \<le> uptime h' \<and> (0 < get_armor_value h \<longrightarrow> 1 \<le> damage_taken res)"
  unfolding enemy_attack_def
  by (auto simp: Let_def split: sum.splits prod.splits if_splits)

text \<open>
  Claim C2 says that every enemy attack costs the hero at least 1 health, for any armour
  value \<open>\<ge> 0\<close>.  The code clamps to 1 only inside \<open>if armor > 0\<close>: the fixture
  \<open>weak_enemy\<close> (dice \<open>1d1\<close>) striking the defending, unarmoured warrior rolls 1, halves it
  to \<open>int(0.5) = 0\<close> and deals no damage.
\<close>

theorem enemy_attack_zero_damage:
  "get_armor_value example_hero = 0 \<and>
   enemy_attack weak_enemy example_hero defending (sconst 0) =
     Inr (\<lparr>damage_taken = 0, hero_defeated = False\<rparr>, example_hero, sconst 0)"
proof -
  have a: "get_armor_value example_hero = 0"
    by (simp add: get_armor_value_def example_hero_def)
  have d: "damage_dice weak_enemy = ''1d1''" by (simp add: weak_enemy_def)
  have t: "py_trunc (1 * (1 - DEFENSE_DAMAGE_REDUCTION)) = 0"
    using py_trunc_frac[of 2 1] by (simp add: DEFENSE_DAMAGE_REDUCTION_def)
  have u: "example_hero\<lparr>uptime := 120\<rparr> = example_hero" by (simp add: example_hero_def)
  have "enemy_attack weak_enemy example_hero defending (sconst 0) =
     Inr (\<lparr>damage_taken = 0, hero_defeated = False\<rparr>, example_hero, sconst 0)"
    unfolding enemy_attack_def d roll_1d1
    using a t u by (simp add: defending_def) (simp add: example_hero_def)
  with a show ?thesis by simp
qed

subsection \<open>Gold\<close>

text \<open>
  Claim C5 says that \<open>add_gold\<close> never leaves a hero with negative gold.  The code adds
  the amount without a clamp: the fixture warrior with 0 gold ends with \<open>-50\<close>.
\<close>

theorem add_gold_negative: "gold (add_gold example_hero (- 50)) = - 50"
  by (simp add: add_gold_def example_hero_def)

subsection \<open>Status effects\<close>

text \<open>
  Claim C7 says that a permanent effect (duration \<open>-1\<close>) is never decremented or expired
  by applies and ticks.  \<open>apply_effect\<close> compares the durations as numbers, so applying
  the same type with duration 1 replaces \<open>-1\<close> by 1, and the next tick removes the effect.
\<close>

theorem permanent_effect_expires:
  "status_effects (apply_effect (example_hero\<lparr>status_effects := [permanent_cache]\<rparr>) Cached 1 ''again'')
     = [permanent_cache\<lparr>duration := 1\<rparr>] \<and>
   process_turn_effects
     (apply_effect (example_hero\<lparr>status_effects := [permanent_cache]\<rparr>) Cached 1 ''again'') =
     ([''Cached''], example_hero)"
  by (simp add: apply_effect_def process_turn_effects_def permanent_cache_def expired_now_def
      decrement_def Let_def example_hero_def)

subsection \<open>Hero attacks\<close>

lemma calculate_damage_formula:
  assumes "weapon_roll weapon g = Inr (r, g1)" "critical_hit_check g1 = (crit, g2)"
    "stats ''throughput'' = Some off"
  shows "calculate_damage stats weapon target m ia g =
           Inr ((spec_final_damage r off m crit ia (target_armor target), crit), g2)"
  unfolding calculate_damage_def spec_final_damage_def using assms
  by (simp add: Let_def mult.commute)

lemma hero_attack_open:
  assumes "\<not> (immune_until_examined target \<and> \<not> is_examined target)"
    "weapon_roll (eq_weapon (equipped h)) g = Inr (r, g1)" "critical_hit_check g1 = (crit, g2)"
  shows "\<exists>res c'. hero_attack h target c m ia g =
            Inr (res, h, target\<lparr>hp := max 0 (hp target - damage_dealt res)\<rparr>, c', g2) \<and>
          success res \<and>
          damage_dealt res =
            py_trunc (of_int (spec_final_damage r (throughput h) m crit ia (armor target))
                      * get_damage_modifier h)"
proof -
  have cd: "calculate_damage
               [''throughput'' \<mapsto> throughput h, ''formula_power'' \<mapsto> formula_power h]
               (eq_weapon (equipped h)) (Inl target) m ia g =
            Inr ((spec_final_damage r (throughput h) m crit ia (armor target), crit), g2)"
    using calculate_damage_formula[OF assms(2,3), of _ "throughput h" "Inl target" m ia]
    by (simp add: target_armor_def)
  show ?thesis
    unfolding hero_attack_def cd using assms(1)
    by (auto simp: Let_def max_def)
qed

lemma modifier_ge_1_aux:
  "1 \<le> (acc :: rat) \<Longrightarrow> \<forall>e\<in>set es. effect_type e \<noteq> Auth_expired \<Longrightarrow>
   1 \<le> foldl (\<lambda>modifier e.
              if effect_type e = Buffered then modifier * (5 / 4)
              else if effect_type e = Auth_expired then modifier * (1 / 2)
              else modifier) acc es"
proof (induction es arbitrary: acc)
  case Nil
  then show ?case by simp
next
  case (Cons e es)
  have "1 \<le> acc * (5 / 4)" using Cons.prems(1) by simp
  with Cons show ?case by simp
qed

lemma modifier_ge_1:
  "Auth_expired \<notin> effect_type ` set (status_effects h) \<Longrightarrow> 1 \<le> get_damage_modifier h"
  unfolding get_damage_modifier_def by (intro modifier_ge_1_aux) force+

lemma py_trunc_scale: "1 \<le> d \<Longrightarrow> 1 \<le> m \<Longrightarrow> d \<le> py_trunc (of_int d * m)"
proof -
  assume d: "1 \<le> d" and m: "1 \<le> m"
  have "(of_int d :: rat) * 1 \<le> of_int d * m"
    using d m by (intro mult_left_mono) auto
  then have "(of_int d :: rat) \<le> of_int d * m" by simp
  moreover have "0 \<le> (of_int d :: rat) * m" using d m by simp
  ultimately show ?thesis by (simp add: py_trunc_def le_floor_iff)
qed

lemma spec_final_damage_ge_1: "1 \<le> spec_final_damage r off m crit False a"
  by (simp add: spec_final_damage_def Let_def)

lemma examine_enemies_first:
  "matches nm target \<Longrightarrow> \<forall>e\<in>set pre. \<not> matches nm e \<Longrightarrow>
   examine_enemies nm (pre @ target # post) = Some (pre @ target\<lparr>is_examined := True\<rparr> # post)"
  by (induction pre) auto




lemma no_crit: "critical_hit_check (sconst 0) = (False, sconst 0)"
  by (simp add: critical_hit_check_def randint_def)



text \<open>
  Claim C3, as the code has it.  An attack on an enemy that is immune until examined and
  not yet examined fails with zero damage and leaves hero, enemy, combat state and random
  source as they were.  \<open>examine\<close> marks the first living enemy whose name matches.  The
  same attack on the marked enemy is no longer blocked: it succeeds and the enemy's health
  becomes \<open>max(0, hp - damage)\<close>, which is less than before whenever the health was
  positive and the damage is at least 1; the damage is at least 1 whenever armour is not
  ignored and the hero has no \<open>auth_expired\<close> effect.
\<close>

theorem immune_gate:
  "immune_until_examined target \<and> \<not> is_examined target \<longrightarrow>
     hero_attack h target c m ia g =
       Inr (\<lparr>success = False, damage_dealt = 0, enemy_defeated = False, xp_gained = 0,
             gold_gained = 0\<rparr>, h, target, c, g) \<and>
     (matches nm target \<and> (\<forall>e\<in>set pre. \<not> matches nm e) \<longrightarrow>
        examine_enemies nm (pre @ target # post) =
          Some (pre @ target\<lparr>is_examined := True\<rparr> # post)) \<and>
     (\<forall>r g1. weapon_roll (eq_weapon (equipped h)) g = Inr (r, g1) \<longrightarrow>
        (\<exists>res c' g'.
           hero_attack h (target\<lparr>is_examined := True\<rparr>) c m ia g =
             Inr (res, h,
                  target\<lparr>is_examined := True, hp := max 0 (hp target - damage_dealt res)\<rparr>,
                  c', g') \<and>
           success res \<and>
           (0 < hp target \<and> 1 \<le> damage_dealt res \<longrightarrow>
              max 0 (hp target - damage_dealt res) < hp target) \<and>
           (\<not> ia \<and> Auth_expired \<notin> effect_type ` set (status_effects h) \<longrightarrow>
              1 \<le> damage_dealt res)))"
proof (intro impI conjI allI)
  assume a: "immune_until_examined target \<and> \<not> is_examined target"
  then show "hero_attack h target c m ia g =
       Inr (\<lparr>success = False, damage_dealt = 0, enemy_defeated = False, xp_gained = 0,
             gold_gained = 0\<rparr>, h, target, c, g)"
    by (simp add: hero_attack_def)
next
  assume "matches nm target \<and> (\<forall>e\<in>set pre. \<not> matches nm e)"
  then show "examine_enemies nm (pre @ target # post) =
          Some (pre @ target\<lparr>is_examined := True\<rparr> # post)"
    by (simp add: examine_enemies_first)
next
  fix r g1
  assume w: "weapon_roll (eq_weapon (equipped h)) g = Inr (r, g1)"
  obtain crit g2 where k: "critical_hit_check g1 = (crit, g2)" by (cases "critical_hit_check g1")
  have o: "\<not> (immune_until_examined (target\<lparr>is_examined := True\<rparr>) \<and>
              \<not> is_examined (target\<lparr>is_examined := True\<rparr>))" by simp
  from hero_attack_open[OF o w k, of c m ia] obtain res c' where
    r: "hero_attack h (target\<lparr>is_examined := True\<rparr>) c m ia g =
          Inr (res, h,
               target\<lparr>is_examined := True, hp := max 0 (hp target - damage_dealt res)\<rparr>,
               c', g2)"
       "success res"
       "damage_dealt res =
          py_trunc (of_int (spec_final_damage r (throughput h) m crit ia (armor target))
                    * get_damage_modifier h)" by auto
  have d: "\<not> ia \<and> Auth_expired \<notin> effect_type ` set (status_effects h) \<longrightarrow>
              1 \<le> damage_dealt res"
  proof
    assume n: "\<not> ia \<and> Auth_expired \<notin> effect_type ` set (status_effects h)"
    have s1: "1 \<le> spec_final_damage r (throughput h) m crit ia (armor target)"
      using n spec_final_damage_ge_1 by simp
    have g1: "1 \<le> get_damage_modifier h" using n modifier_ge_1 by simp
    from py_trunc_scale[OF s1 g1] s1 r(3)
    show "1 \<le> damage_dealt res" by linarith
  qed
  have l: "0 < hp target \<and> 1 \<le> damage_dealt res \<longrightarrow>
              max 0 (hp target - damage_dealt res) < hp target" by auto
  from r(1,2) d l
  show "\<exists>res c' g'.
           hero_attack h (target\<lparr>is_examined := True\<rparr>) c m ia g =
             Inr (res, h,
                  target\<lparr>is_examined := True, hp := max 0 (hp target - damage_dealt res)\<rparr>,
                  c', g') \<and>
           success res \<and>
           (0 < hp target \<and> 1 \<le> damage_dealt res \<longrightarrow>
              max 0 (hp target - damage_dealt res) < hp target) \<and>
           (\<not> ia \<and> Auth_expired \<notin> effect_type ` set (status_effects h) \<longrightarrow>
              1 \<le> damage_dealt res)"
    by blast
qed

lemma matches_api: "matches ''api'' undocumented_api"
  by (simp add: matches_def undocumented_api_def lower_def lower_char_def)

text \<open>
  The claim as stated fails: after the examine, the warrior under \<open>auth_expired\<close> strikes
  for \<open>max(1, 3 - 3) = 1\<close>, the final scaling gives \<open>int(1 * 0.5) = 0\<close>, and the enemy's
  health stays 40.
\<close>

theorem immune_gate_counterexample:
  "immune_until_examined undocumented_api \<and> \<not> is_examined undocumented_api \<and>
   examine_enemies ''api'' [undocumented_api] = Some [undocumented_api\<lparr>is_examined := True\<rparr>] \<and>
   hero_attack locked_out_hero (undocumented_api\<lparr>is_examined := True\<rparr>) defending 1 False
       (sconst 0) =
     Inr (\<lparr>success = True, damage_dealt = 0, enemy_defeated = False, xp_gained = 0,
           gold_gained = 0\<rparr>, locked_out_hero, undocumented_api\<lparr>is_examined := True\<rparr>,
          defending, sconst 0)"
proof -
  have t: "py_trunc (1 / 2) = 0" using py_trunc_frac[of 2 1] by simp
  have u: "undocumented_api\<lparr>is_examined := True, hp := 40\<rparr> = undocumented_api\<lparr>is_examined := True\<rparr>"
    by (simp add: undocumented_api_def)
  have cd: "calculate_damage
       [''throughput'' \<mapsto> throughput locked_out_hero,
        ''formula_power'' \<mapsto> formula_power locked_out_hero]
       (eq_weapon (equipped locked_out_hero)) (Inl (undocumented_api\<lparr>is_examined := True\<rparr>))
       1 False (sconst 0) = Inr ((1, False), sconst 0)"
    by (simp add: calculate_damage_def weapon_roll_def locked_out_hero_def example_hero_def
        no_crit target_armor_def undocumented_api_def py_trunc_numeral)
  have m: "get_damage_modifier locked_out_hero = 1 / 2"
    by (simp add: get_damage_modifier_def locked_out_hero_def)
  have h: "hero_attack locked_out_hero (undocumented_api\<lparr>is_examined := True\<rparr>) defending 1 False
       (sconst 0) =
     Inr (\<lparr>success = True, damage_dealt = 0, enemy_defeated = False, xp_gained = 0,
           gold_gained = 0\<rparr>, locked_out_hero, undocumented_api\<lparr>is_examined := True\<rparr>,
          defending, sconst 0)"
    unfolding hero_attack_def cd m using t u by (simp add: undocumented_api_def)
  show ?thesis using h matches_api by (simp add: undocumented_api_def)
qed

theorem immune_gate_witness:
  "immune_until_examined undocumented_api \<and> \<not> is_examined undocumented_api \<and>
   hero_attack example_hero undocumented_api defending 1 False (sconst 0) =
     Inr (\<lparr>success = False, damage_dealt = 0, enemy_defeated = False, xp_gained = 0,
           gold_gained = 0\<rparr>, example_hero, undocumented_api, defending, sconst 0) \<and>
   examine_enemies ''api'' [undocumented_api] = Some [undocumented_api\<lparr>is_examined := True\<rparr>] \<and>
   (\<exists>res c' g'.
      hero_attack example_hero (undocumented_api\<lparr>is_examined := True\<rparr>) defending 1 False
         (sconst 0) =
        Inr (res, example_hero,
             undocumented_api\<lparr>is_examined := True,
                               hp := max 0 (hp undocumented_api - damage_dealt res)\<rparr>, c', g') \<and>
      success res \<and> 1 \<le> damage_dealt res \<and>
      max 0 (hp undocumented_api - damage_dealt res) < hp undocumented_api)"
proof -
  have a: "immune_until_examined undocumented_api \<and> \<not> is_examined undocumented_api"
    by (simp add: undocumented_api_def)
  have w: "weapon_roll (eq_weapon (equipped example_hero)) (sconst 0) = Inr (1, sconst 0)"
    by (simp add: weapon_roll_def example_hero_def)
  have n: "\<not> False \<and> Auth_expired \<notin> effect_type ` set (status_effects example_hero)"
    by (simp add: example_hero_def)
  have p: "0 < hp undocumented_api" by (simp add: undocumented_api_def)
  have e: "matches ''api'' undocumented_api \<and> (\<forall>e\<in>set []. \<not> matches ''api'' e)"
    using matches_api by simp
  from immune_gate[of undocumented_api example_hero defending 1 False "sconst 0" "''api''" "[]" "[]"]
    a w n p e
  show ?thesis by fastforce
qed

subsection \<open>Experience and levels\<close>

lemma powr_three_halves: "0 \<le> x \<Longrightarrow> x powr (3 / 2) = x * sqrt x"
proof -
  assume x: "0 \<le> x"
  show ?thesis
  proof (cases "x = 0")
    case True
    then show ?thesis by simp
  next
    case False
    with x have p: "0 < x" by simp
    have "x powr (3 / 2) = x powr (1 + 1 / 2)" by simp
    also have "\<dots> = x powr 1 * x powr (1 / 2)" by (simp only: powr_add)
    also have "\<dots> = x * sqrt x" using p by (simp add: powr_half_sqrt)
    finally show ?thesis .
  qed
qed



lemma xp_value_eval:
  assumes "0 \<le> lvl" "0 \<le> r" "r * r \<le> 10000 * lvl ^ 3" "10000 * lvl ^ 3 < (r + 1) * (r + 1)"
  shows "xp_value lvl = r"
proof -
  define x where "x = 100 * (real_of_int lvl * sqrt (real_of_int lvl))"
  have x0: "0 \<le> x" using assms(1) by (simp add: x_def)
  have sq: "x * x = real_of_int (10000 * lvl ^ 3)"
  proof -
    have "x * x = 10000 * (real_of_int lvl * real_of_int lvl)
                   * (sqrt (real_of_int lvl) * sqrt (real_of_int lvl))"
      by (simp add: x_def algebra_simps)
    also have "\<dots> = 10000 * (real_of_int lvl * real_of_int lvl) * real_of_int lvl"
      using assms(1) by simp
    finally show ?thesis by (simp add: power3_eq_cube)
  qed
  have lo: "real_of_int r \<le> x"
  proof (rule ccontr)
    assume "\<not> real_of_int r \<le> x"
    then have "x < real_of_int r" by simp
    then have "x * x < real_of_int r * real_of_int r"
      using x0 by (intro mult_strict_mono') auto
    with sq have "real_of_int (10000 * lvl ^ 3) < real_of_int (r * r)" by simp
    then have "10000 * lvl ^ 3 < r * r" by (simp only: of_int_less_iff)
    with assms(3) show False by simp
  qed
  have hi: "x < real_of_int (r + 1)"
  proof (rule ccontr)
    assume "\<not> x < real_of_int (r + 1)"
    then have "real_of_int (r + 1) \<le> x" by simp
    then have "real_of_int (r + 1) * real_of_int (r + 1) \<le> x * x"
      using assms(2) by (intro mult_mono) auto
    with sq have "real_of_int ((r + 1) * (r + 1)) \<le> real_of_int (10000 * lvl ^ 3)" by simp
    then have "(r + 1) * (r + 1) \<le> 10000 * lvl ^ 3" by (simp only: of_int_le_iff)
    with assms(4) show False by simp
  qed
  have "\<lfloor>x\<rfloor> = r" using lo hi by (simp add: floor_unique)
  then show ?thesis
    unfolding xp_value_def x_def using assms(1) by (simp add: powr_three_halves)
qed

lemma xp_values:
  "xp_value 1 = 100" "xp_value 2 = 282" "xp_value 3 = 519" "xp_value 4 = 800"
  "xp_value 5 = 1118" "xp_value 6 = 1469" "xp_value 7 = 1852"
  by (rule xp_value_eval; simp)+




lemma apply_level_up_role: "role (apply_level_up h) = role h"
  by (cases "role h"; simp add: apply_level_up_def Let_def)





lemma level_up_stop:
  "0 \<le> level h \<Longrightarrow> xp h < xp_value (level h + 1) \<Longrightarrow> level_up_loop h b g = Inr (b, h, g)"
  by (subst level_up_loop.simps) (simp add: xp_required_for_level_def)




subsection \<open>The attack handler\<close>

lemma hero_attack_frame:
  "hero_attack h t c m ia g = Inr (res, h', t', c', g') \<Longrightarrow>
     h' = h \<and>
     xp_gained res = (if enemy_defeated res then xp_reward t else 0) \<and>
     gold_gained res = (if enemy_defeated res then gold_reward t else 0)"
  unfolding hero_attack_def
  by (auto simp: Let_def split: if_splits sum.splits prod.splits)

lemma enemy_attack_frame:
  "enemy_attack e h c g = Inr (res, h', g') \<Longrightarrow>
     xp h' = xp h \<and> level h' = level h \<and> gold h' = gold h"
  unfolding enemy_attack_def
  by (auto simp: Let_def split: if_splits sum.splits prod.splits)

lemma enemy_turn_frame:
  "enemy_turn es h c g = Inr (d, h', g') \<Longrightarrow>
     xp h' = xp h \<and> level h' = level h \<and> gold h' = gold h"
proof (induction es arbitrary: h g)
  case Nil
  then show ?case by simp
next
  case (Cons e es)
  from Cons.prems obtain res h1 g1 where
    a: "enemy_attack e h c g = Inr (res, h1, g1)"
    by (auto split: sum.splits)
  note f = enemy_attack_frame[OF a]
  show ?case
  proof (cases "hero_defeated res")
    case True
    with Cons.prems a have "h' = h1" by simp
    with f show ?thesis by simp
  next
    case False
    with Cons.prems a have "enemy_turn es h1 c g1 = Inr (d, h', g')" by simp
    from Cons.IH[OF this] f show ?thesis by simp
  qed
qed

lemma apply_level_up_gold: "gold (apply_level_up h) = gold h"
  by (cases "role h"; simp add: apply_level_up_def Let_def)

lemma level_up_loop_gold:
  "level_up_loop h b g = Inr (l, h', g') \<Longrightarrow> gold h' = gold h"
proof (induction h b g rule: level_up_loop.induct)
  case (1 h leveled_up g)
  from "1.prems" obtain need where
    req: "xp_required_for_level (level h + 1) = Inr need"
    by (subst (asm) level_up_loop.simps) (auto split: sum.splits)
  show ?case
  proof (cases "need \<le> xp h")
    case True
    let ?h1 = "apply_level_up (h\<lparr>xp := xp h - need, level := level h + 1\<rparr>)"
    have "level_up_loop ?h1 True (stl g) = Inr (l, h', g')"
      using "1.prems" req True by (subst (asm) level_up_loop.simps) simp
    from "1.IH"[OF req True this] show ?thesis by (simp add: apply_level_up_gold)
  next
    case False
    then have "h' = h"
      using "1.prems" req by (subst (asm) level_up_loop.simps) simp
    then show ?thesis by simp
  qed
qed

lemma add_experience_gold:
  "add_experience h amount g = Inr (l, h', g') \<Longrightarrow> gold h' = gold h"
  unfolding add_experience_def using level_up_loop_gold by fastforce

lemma map_of_replace:
  "map_of xs key = Some r0 \<Longrightarrow>
   map_of (map (\<lambda>(k, r). if k = key then (k, room) else (k, r)) xs) key = Some room"
  by (induction xs) (auto split: if_splits)

lemma current_room_set:
  "get_current_room gs = Inr r0 \<Longrightarrow>
   get_current_room ((set_current_room gs room)\<lparr>hero := h, combat := c\<rparr>) = Inr room"
  unfolding get_current_room_def set_current_room_def
  by (auto simp: map_of_replace split: option.splits)

lemma current_room_combat:
  "get_current_room (gs\<lparr>combat := c\<rparr>) = get_current_room gs"
  "get_current_room (gs\<lparr>hero := h\<rparr>) = get_current_room gs"
  by (simp_all add: get_current_room_def)

lemma all_defeated_iff: "all_defeated es \<longleftrightarrow> \<not> (\<exists>e\<in>set es. 0 < hp e)"
  by (auto simp: all_defeated_def list_all_iff not_less)

lemma filter_alive_nonempty: "\<not> all_defeated es \<Longrightarrow> \<exists>e\<in>set es. 0 < hp e"
  by (simp add: all_defeated_iff)

lemma resolve_attack_spec:
  assumes "resolve_attack gs room i c sk g = Inr (out, gs2, g2)"
    "get_current_room gs = Inr r0"
  shows "\<exists>room'. get_current_room gs2 = Inr room' \<and>
     (if all_defeated (room_enemies room')
      then (\<exists>res lev h2 g1. out = Resolved res \<and>
              add_experience (hero gs) (sum_list (map xp_reward (room_enemies room'))) g1
                = Inr (lev, h2, g2) \<and>
              hero gs2 = add_gold h2 (sum_list (map gold_reward (room_enemies room'))))
      else xp (hero gs2) = xp (hero gs) \<and> level (hero gs2) = level (hero gs) \<and>
           gold (hero gs2) = gold (hero gs))"
proof -
  from assms(1) obtain result h1 target1 c1 g1 where
    ha: "hero_attack (hero gs) (room_enemies room ! i) c
             (case damage_multiplier sk of Some m \<Rightarrow> m | None \<Rightarrow> 1)
             (case ignore_armor sk of Some b \<Rightarrow> b | None \<Rightarrow> False) g
         = Inr (result, h1, target1, c1, g1)"
    unfolding resolve_attack_def by (auto split: sum.splits)
  from hero_attack_frame[OF ha] have h1: "h1 = hero gs" by simp
  let ?room1 = "room\<lparr>room_enemies := (room_enemies room)[i := target1]\<rparr>"
  show ?thesis
  proof (cases "all_defeated (room_enemies ?room1)")
    case True
    let ?room2 = "?room1\<lparr>is_cleared := True\<rparr>"
    let ?tx = "sum_list (map xp_reward (room_enemies ?room2))"
    let ?tg = "sum_list (map gold_reward (room_enemies ?room2))"
    from assms(1) ha True obtain lev h2 where
      ae: "add_experience h1 ?tx (stl g1) = Inr (lev, h2, g2)" and
      out: "out = Resolved result" and
      gs2: "gs2 = (set_current_room gs ?room2)\<lparr>hero := add_gold h2 ?tg, combat := None\<rparr>"
      unfolding resolve_attack_def by (auto simp: Let_def split: sum.splits)
    have cr: "get_current_room gs2 = Inr ?room2"
      unfolding gs2 by (rule current_room_set[OF assms(2)])
    have ad: "all_defeated (room_enemies ?room2)" using True by simp
    show ?thesis
      using cr ad ae out gs2 h1
      by (intro exI[of _ ?room2]) auto
  next
    case False
    from assms(1) ha False obtain defeated h2 where
      et: "enemy_turn (filter (\<lambda>e. hp e > 0) (room_enemies ?room1)) h1 c1 g1
             = Inr (defeated, h2, g2)" and
      gs2: "gs2 = (set_current_room gs ?room1)\<lparr>hero := h2, combat := Some c1\<rparr>"
      unfolding resolve_attack_def by (auto simp: Let_def split: sum.splits)
    have cr: "get_current_room gs2 = Inr ?room1"
      unfolding gs2 by (rule current_room_set[OF assms(2)])
    from enemy_turn_frame[OF et] h1 gs2
    have "xp (hero gs2) = xp (hero gs) \<and> level (hero gs2) = level (hero gs) \<and>
           gold (hero gs2) = gold (hero gs)" by simp
    with cr False show ?thesis
      by (intro exI[of _ ?room1]) simp
  qed
qed


lemma attack_cases:
  assumes "attack sd target sk (Some gs) g = Inr (out, Some gs', g')"
  shows "\<exists>room c g1.
     get_current_room gs = Inr room \<and>
     ((out = InvalidTarget \<or> out = SkillNotFound \<or> out = InsufficientCredits) \<and>
        hero gs' = hero gs \<and> get_current_room gs' = Inr room
      \<or> (\<exists>i s paid.
            paid = (hero gs)\<lparr>api_credits := api_credits (hero gs)
                      - py_trunc (of_int (cost s) * get_mp_cost_modifier (hero gs))\<rparr> \<and>
            resolve_attack (gs\<lparr>combat := Some c, hero := paid\<rparr>) room i c s g1
              = Inr (out, gs', g')))"
proof -
  from assms obtain room where room: "get_current_room gs = Inr room"
    unfolding attack_def by (auto split: sum.splits)
  show ?thesis
  proof (cases "find_enemy target (room_enemies room)")
    case None
    with assms room have "out = InvalidTarget" "gs' = gs"
      unfolding attack_def by auto
    with room show ?thesis by auto
  next
    case (Some i)
    obtain c g1 where cc: "current_combat gs room g = (c, g1)"
      by (cases "current_combat gs room g")
    let ?gs1 = "gs\<lparr>combat := Some c\<rparr>"
    have r1: "get_current_room ?gs1 = Inr room" using room by (simp add: current_room_combat)
    show ?thesis
    proof (cases "find_skill sd sk")
      case None
      with assms room Some cc have "out = SkillNotFound" "gs' = ?gs1"
        unfolding attack_def by auto
      with r1 room show ?thesis by auto
    next
      case (Some s)
      let ?mp = "py_trunc (of_int (cost s) * get_mp_cost_modifier (hero gs))"
      show ?thesis
      proof (cases "api_credits (hero gs) < ?mp")
        case True
        with assms room \<open>find_enemy target (room_enemies room) = Some i\<close> cc Some
        have "out = InsufficientCredits" "gs' = ?gs1"
          unfolding attack_def by auto
        with r1 room show ?thesis by auto
      next
        case False
        let ?paid = "(hero gs)\<lparr>api_credits := api_credits (hero gs) - ?mp\<rparr>"
        from assms room \<open>find_enemy target (room_enemies room) = Some i\<close> cc Some False
        have ms: "map_sum id (\<lambda>(out, gs2, g2). (out, Some gs2, g2))
                (resolve_attack (gs\<lparr>combat := Some c, hero := ?paid\<rparr>) room i c s g1)
                = Inr (out, Some gs', g')"
          unfolding attack_def by (simp add: Let_def)
        have "resolve_attack (gs\<lparr>combat := Some c, hero := ?paid\<rparr>) room i c s g1
                = Inr (out, gs', g')"
          using ms
          by (cases "resolve_attack (gs\<lparr>combat := Some c, hero := ?paid\<rparr>) room i c s g1")
            auto
        with room show ?thesis by blast
      qed
    qed
  qed
qed


text \<open>
  Claim C9.  \<open>hero_attack\<close> returns the hero unchanged and only reports the slain enemy's
  rewards in its result.  After a call of \<open>attack\<close> that returns: if an enemy of the room
  is still alive, the hero's experience, level and gold are as before; if the attack went
  through and no enemy is alive, the hero is the result of \<open>add_experience\<close> with the sum
  of \<open>xp_reward\<close> over every enemy of the room (those defeated earlier too), followed by
  \<open>add_gold\<close> with the sum of \<open>gold_reward\<close>.
\<close>

theorem attack_rewards:
  "(hero_attack h t c m ia g0 = Inr (res0, h', t', c', g0') \<longrightarrow>
      h' = h \<and>
      xp_gained res0 = (if enemy_defeated res0 then xp_reward t else 0) \<and>
      gold_gained res0 = (if enemy_defeated res0 then gold_reward t else 0)) \<and>
   (attack sd target sk (Some gs) g = Inr (out, Some gs', g') \<longrightarrow>
      (\<exists>room'.
         get_current_room gs' = Inr room' \<and>
         ((\<exists>e\<in>set (room_enemies room'). 0 < hp e) \<longrightarrow>
            xp (hero gs') = xp (hero gs) \<and> level (hero gs') = level (hero gs) \<and>
            gold (hero gs') = gold (hero gs)) \<and>
         ((\<exists>res. out = Resolved res) \<and> \<not> (\<exists>e\<in>set (room_enemies room'). 0 < hp e) \<longrightarrow>
            gold (hero gs') = gold (hero gs) + sum_list (map gold_reward (room_enemies room')) \<and>
            (\<exists>paid lev h2 g1.
               xp paid = xp (hero gs) \<and> level paid = level (hero gs) \<and>
               gold paid = gold (hero gs) \<and>
               add_experience paid (sum_list (map xp_reward (room_enemies room'))) g1
                 = Inr (lev, h2, g') \<and>
               hero gs' = add_gold h2 (sum_list (map gold_reward (room_enemies room')))))))"
proof (intro conjI impI)
  assume "hero_attack h t c m ia g0 = Inr (res0, h', t', c', g0')"
  from hero_attack_frame[OF this]
  show "h' = h"
    and "xp_gained res0 = (if enemy_defeated res0 then xp_reward t else 0)"
    and "gold_gained res0 = (if enemy_defeated res0 then gold_reward t else 0)"
    by simp_all
next
  assume a: "attack sd target sk (Some gs) g = Inr (out, Some gs', g')"
  from attack_cases[OF a] obtain room c g1 where
    room: "get_current_room gs = Inr room" and
    alt: "(out = InvalidTarget \<or> out = SkillNotFound \<or> out = InsufficientCredits) \<and>
            hero gs' = hero gs \<and> get_current_room gs' = Inr room
          \<or> (\<exists>i s paid.
            paid = (hero gs)\<lparr>api_credits := api_credits (hero gs)
                      - py_trunc (of_int (cost s) * get_mp_cost_modifier (hero gs))\<rparr> \<and>
            resolve_attack (gs\<lparr>combat := Some c, hero := paid\<rparr>) room i c s g1
              = Inr (out, gs', g'))"
    by blast
  from alt
  show "\<exists>room'.
         get_current_room gs' = Inr room' \<and>
         ((\<exists>e\<in>set (room_enemies room'). 0 < hp e) \<longrightarrow>
            xp (hero gs') = xp (hero gs) \<and> level (hero gs') = level (hero gs) \<and>
            gold (hero gs') = gold (hero gs)) \<and>
         ((\<exists>res. out = Resolved res) \<and> \<not> (\<exists>e\<in>set (room_enemies room'). 0 < hp e) \<longrightarrow>
            gold (hero gs') = gold (hero gs) + sum_list (map gold_reward (room_enemies room')) \<and>
            (\<exists>paid lev h2 g1.
               xp paid = xp (hero gs) \<and> level paid = level (hero gs) \<and>
               gold paid = gold (hero gs) \<and>
               add_experience paid (sum_list (map xp_reward (room_enemies room'))) g1
                 = Inr (lev, h2, g') \<and>
               hero gs' = add_gold h2 (sum_list (map gold_reward (room_enemies room')))))"
  proof
    assume "(out = InvalidTarget \<or> out = SkillNotFound \<or> out = InsufficientCredits) \<and>
            hero gs' = hero gs \<and> get_current_room gs' = Inr room"
    then show ?thesis by (intro exI[of _ room]) auto
  next
    assume "\<exists>i s paid.
            paid = (hero gs)\<lparr>api_credits := api_credits (hero gs)
                      - py_trunc (of_int (cost s) * get_mp_cost_modifier (hero gs))\<rparr> \<and>
            resolve_attack (gs\<lparr>combat := Some c, hero := paid\<rparr>) room i c s g1
              = Inr (out, gs', g')"
    then obtain i s paid where
      paid: "paid = (hero gs)\<lparr>api_credits := api_credits (hero gs)
                      - py_trunc (of_int (cost s) * get_mp_cost_modifier (hero gs))\<rparr>" and
      ra: "resolve_attack (gs\<lparr>combat := Some c, hero := paid\<rparr>) room i c s g1
              = Inr (out, gs', g')"
      by blast
    let ?gs1 = "gs\<lparr>combat := Some c, hero := paid\<rparr>"
    have r1: "get_current_room ?gs1 = Inr room"
      using room by (simp add: get_current_room_def)
    have hp: "hero ?gs1 = paid" by simp
    have pf: "xp paid = xp (hero gs)" "level paid = level (hero gs)" "gold paid = gold (hero gs)"
      by (simp_all add: paid)
    from resolve_attack_spec[OF ra r1] obtain room' where
      cr: "get_current_room gs' = Inr room'" and
      sp: "if all_defeated (room_enemies room')
           then (\<exists>res lev h2 g1. out = Resolved res \<and>
              add_experience (hero ?gs1) (sum_list (map xp_reward (room_enemies room'))) g1
                = Inr (lev, h2, g') \<and>
              hero gs' = add_gold h2 (sum_list (map gold_reward (room_enemies room'))))
           else xp (hero gs') = xp (hero ?gs1) \<and> level (hero gs') = level (hero ?gs1) \<and>
                gold (hero gs') = gold (hero ?gs1)"
      by blast
    show ?thesis
    proof (cases "all_defeated (room_enemies room')")
      case True
      with sp obtain res lev h2 g1' where
        v: "out = Resolved res"
           "add_experience paid (sum_list (map xp_reward (room_enemies room'))) g1'
                = Inr (lev, h2, g')"
           "hero gs' = add_gold h2 (sum_list (map gold_reward (room_enemies room')))"
        unfolding hp by auto
      from add_experience_gold[OF v(2)] pf
      have gl: "gold (hero gs') = gold (hero gs) + sum_list (map gold_reward (room_enemies room'))"
        by (simp add: v(3) add_gold_def)
      from True have none: "\<not> (\<exists>e\<in>set (room_enemies room'). 0 < hp e)"
        by (simp add: all_defeated_iff)
      show ?thesis
        using cr none gl pf v(2,3)
        by (intro exI[of _ room']) blast
    next
      case False
      with sp pf have "xp (hero gs') = xp (hero gs) \<and> level (hero gs') = level (hero gs) \<and>
                gold (hero gs') = gold (hero gs)"
        unfolding hp by simp
      moreover from False have "\<exists>e\<in>set (room_enemies room'). 0 < hp e"
        by (simp add: all_defeated_iff)
      ultimately show ?thesis
        using cr by (intro exI[of _ room']) blast
    qed
  qed
qed


lemma arena_room_now: "get_current_room arena = Inr arena_room"
  by (simp add: get_current_room_def arena_def)

lemma arena_target: "find_enemy ''weak'' (room_enemies arena_room) = Some (Suc 0)"
  by (simp add: arena_room_def matches_def guardian_def weak_enemy_def lower_def lower_char_def)

lemma arena_combat:
  "current_combat arena arena_room (sconst 0) =
     (\<lparr>active = True, enemies = [Suc 0], turn_order = [EnemyTurn 0, HeroTurn],
       current_turn_index = 0, round_num = 1, hero_defending = False,
       hero_used_error_handler = False, enemies_defeated = 0\<rparr>, sconst 0)"
  by (simp add: current_combat_def is_in_combat_def arena_def arena_room_def guardian_def
      weak_enemy_def initialize_combat_def random_shuffle_def upt_rec)

lemma arena_skill:
  "find_skill basic_skills ''basic_attack'' =
     Some \<lparr>skill_id = ''basic_attack'', cost = 0, damage_multiplier = None, ignore_armor = None\<rparr>"
  by (simp add: basic_skills_def)

lemma arena_strike:
  "hero_attack example_hero weak_enemy c 1 False (sconst 0) =
     Inr (\<lparr>success = True, damage_dealt = 3, enemy_defeated = True, xp_gained = 10,
           gold_gained = 5\<rparr>, example_hero, weak_enemy\<lparr>hp := 0\<rparr>,
          c\<lparr>enemies_defeated := enemies_defeated c + 1\<rparr>, sconst 0)"
proof -
  have cd: "calculate_damage
       [''throughput'' \<mapsto> throughput example_hero, ''formula_power'' \<mapsto> formula_power example_hero]
       (eq_weapon (equipped example_hero)) (Inl weak_enemy) 1 False (sconst 0) =
       Inr ((3, False), sconst 0)"
    by (simp add: calculate_damage_def weapon_roll_def example_hero_def no_crit target_armor_def
        weak_enemy_def py_trunc_numeral)
  have m: "get_damage_modifier example_hero = 1"
    by (simp add: get_damage_modifier_def example_hero_def)
  show ?thesis
    unfolding hero_attack_def cd m by (simp add: weak_enemy_def py_trunc_numeral)
qed

lemma arena_grant:
  "add_experience example_hero 50 (sconst 0) = Inr (False, example_hero\<lparr>xp := 50\<rparr>, sconst 0)"
  unfolding add_experience_def
  by (simp add: level_up_stop xp_values example_hero_def)


lemma arena_resolve:
  "resolve_attack (arena\<lparr>combat := Some c\<rparr>) arena_room (Suc 0) c
      \<lparr>skill_id = ''basic_attack'', cost = 0, damage_multiplier = None, ignore_armor = None\<rparr>
      (sconst 0) =
     Inr (Resolved \<lparr>success = True, damage_dealt = 3, enemy_defeated = True, xp_gained = 10,
                     gold_gained = 5\<rparr>, arena_won, sconst 0)"
proof -
  have h: "hero (arena\<lparr>combat := Some c\<rparr>) = example_hero" by (simp add: arena_def)
  have t: "room_enemies arena_room ! Suc 0 = weak_enemy" by (simp add: arena_room_def)
  have e: "(room_enemies arena_room)[Suc 0 := weak_enemy\<lparr>hp := 0\<rparr>] =
             [guardian\<lparr>hp := 0\<rparr>, weak_enemy\<lparr>hp := 0\<rparr>]"
    by (simp add: arena_room_def)
  have d: "all_defeated [guardian\<lparr>hp := 0\<rparr>, weak_enemy\<lparr>hp := 0\<rparr>]"
    by (simp add: all_defeated_def)
  have x: "sum_list (map xp_reward [guardian\<lparr>hp := 0\<rparr>, weak_enemy\<lparr>hp := 0\<rparr>]) = 50"
    "sum_list (map gold_reward [guardian\<lparr>hp := 0\<rparr>, weak_enemy\<lparr>hp := 0\<rparr>]) = 20"
    "xp_reward guardian + xp_reward weak_enemy = 50"
    "gold_reward guardian + gold_reward weak_enemy = 20"
    by (simp_all add: guardian_def weak_enemy_def)
  show ?thesis
    unfolding resolve_attack_def h t
    by (simp add: arena_strike e d x arena_grant Let_def)
      (simp add: arena_won_def arena_def set_current_room_def add_gold_def example_hero_def)
qed

lemma arena_attack:
  "attack basic_skills ''weak'' ''basic_attack'' (Some arena) (sconst 0) =
     Inr (Resolved \<lparr>success = True, damage_dealt = 3, enemy_defeated = True, xp_gained = 10,
                     gold_gained = 5\<rparr>, Some arena_won, sconst 0)"
proof -
  have ha: "hero arena = example_hero" by (simp add: arena_def)
  have ac: "api_credits example_hero = 40" by (simp add: example_hero_def)
  have p: "example_hero\<lparr>api_credits := 40\<rparr> = example_hero" by (simp add: example_hero_def)
  have u: "arena\<lparr>combat := Some c, hero := example_hero\<rparr> = arena\<lparr>combat := Some c\<rparr>"
    "arena\<lparr>hero := example_hero, combat := Some c\<rparr> = arena\<lparr>combat := Some c\<rparr>" for c
    by (simp_all add: arena_def)
  show ?thesis
    unfolding attack_def
    by (simp add: arena_room_now arena_target arena_combat arena_skill ha ac p u arena_resolve
        py_trunc_numeral)
qed


lemma roll_1d8: "roll_dice ''1d8'' (sconst 0) = Inr ((1, [1]), sconst 0)"
proof -
  have m: "dice_match (strip (lower ''1d8'')) = Some (''1'', ''8'', None)"
    by (simp add: text_eval)
  show ?thesis
    unfolding roll_dice_def m
    by (simp add: digits_eval randint_def)
qed

lemma skirmish_strike:
  "hero_attack example_hero guardian c 1 False (sconst 0) =
     Inr (\<lparr>success = True, damage_dealt = 1, enemy_defeated = False, xp_gained = 0,
           gold_gained = 0\<rparr>, example_hero, guardian\<lparr>hp := 29\<rparr>, c, sconst 0)"
proof -
  have cd: "calculate_damage
       [''throughput'' \<mapsto> throughput example_hero, ''formula_power'' \<mapsto> formula_power example_hero]
       (eq_weapon (equipped example_hero)) (Inl guardian) 1 False (sconst 0) =
       Inr ((1, False), sconst 0)"
    by (simp add: calculate_damage_def weapon_roll_def example_hero_def no_crit target_armor_def
        guardian_def py_trunc_numeral)
  have m: "get_damage_modifier example_hero = 1"
    by (simp add: get_damage_modifier_def example_hero_def)
  show ?thesis
    unfolding hero_attack_def cd m by (simp add: guardian_def py_trunc_numeral)
qed

lemma skirmish_counter:
  "enemy_attack (guardian\<lparr>hp := 29\<rparr>) example_hero skirmish_combat (sconst 0) =
     Inr (\<lparr>damage_taken = 1, hero_defeated = False\<rparr>, example_hero\<lparr>uptime := 119\<rparr>, sconst 0)"
proof -
  have d: "damage_dice (guardian\<lparr>hp := 29\<rparr>) = ''1d8''" by (simp add: guardian_def)
  have a: "get_armor_value example_hero = 0"
    by (simp add: get_armor_value_def example_hero_def)
  have u: "uptime example_hero = 120" by (simp add: example_hero_def)
  show ?thesis
    unfolding enemy_attack_def d roll_1d8
    by (simp add: a u skirmish_combat_def)
qed

lemma skirmish_attack:
  "attack basic_skills ''guardian'' ''basic_attack'' (Some skirmish) (sconst 0) =
     Inr (Resolved \<lparr>success = True, damage_dealt = 1, enemy_defeated = False, xp_gained = 0,
                     gold_gained = 0\<rparr>, Some skirmish_after, sconst 0)"
proof -
  have room: "get_current_room skirmish = Inr skirmish_room"
    by (simp add: get_current_room_def skirmish_def arena_def)
  have tg: "find_enemy ''guardian'' (room_enemies skirmish_room) = Some 0"
    by (simp add: skirmish_room_def arena_room_def matches_def guardian_def lower_def
        lower_char_def)
  have cc: "current_combat skirmish skirmish_room (sconst 0) = (skirmish_combat, sconst 0)"
    by (simp add: current_combat_def is_in_combat_def skirmish_def skirmish_room_def arena_def
        arena_room_def guardian_def initialize_combat_def random_shuffle_def
        skirmish_combat_def)
  have ha: "hero skirmish = example_hero" by (simp add: skirmish_def arena_def)
  have ac: "api_credits example_hero = 40" by (simp add: example_hero_def)
  have p: "example_hero\<lparr>api_credits := 40\<rparr> = example_hero" by (simp add: example_hero_def)
  have t: "room_enemies skirmish_room ! 0 = guardian" by (simp add: skirmish_room_def)
  have e: "(room_enemies skirmish_room)[0 := guardian\<lparr>hp := 29\<rparr>] = [guardian\<lparr>hp := 29\<rparr>]"
    by (simp add: skirmish_room_def)
  have d: "\<not> all_defeated [guardian\<lparr>hp := 29\<rparr>]" by (simp add: all_defeated_def)
  have r: "resolve_attack (skirmish\<lparr>combat := Some skirmish_combat, hero := example_hero\<rparr>)
             skirmish_room 0 skirmish_combat
             \<lparr>skill_id = ''basic_attack'', cost = 0, damage_multiplier = None, ignore_armor = None\<rparr>
             (sconst 0) =
           Inr (Resolved \<lparr>success = True, damage_dealt = 1, enemy_defeated = False,
                  xp_gained = 0, gold_gained = 0\<rparr>, skirmish_after, sconst 0)"
    unfolding resolve_attack_def
    by (simp add: t skirmish_strike e d skirmish_counter Let_def)
      (simp add: skirmish_after_def skirmish_def arena_def set_current_room_def)
  show ?thesis
    unfolding attack_def
    by (simp add: room tg cc arena_skill ha ac p r py_trunc_numeral)
qed

theorem attack_rewards_witness:
  "hero_attack example_hero weak_enemy defending 1 False (sconst 0) =
     Inr (\<lparr>success = True, damage_dealt = 3, enemy_defeated = True, xp_gained = 10,
           gold_gained = 5\<rparr>, example_hero, weak_enemy\<lparr>hp := 0\<rparr>,
          defending\<lparr>enemies_defeated := enemies_defeated defending + 1\<rparr>, sconst 0) \<and>
   attack basic_skills ''weak'' ''basic_attack'' (Some arena) (sconst 0) =
     Inr (Resolved \<lparr>success = True, damage_dealt = 3, enemy_defeated = True, xp_gained = 10,
                     gold_gained = 5\<rparr>, Some arena_won, sconst 0) \<and>
   xp (hero arena_won) = xp (hero arena) + 50 \<and> gold (hero arena_won) = gold (hero arena) + 20 \<and>
   attack basic_skills ''guardian'' ''basic_attack'' (Some skirmish) (sconst 0) =
     Inr (Resolved \<lparr>success = True, damage_dealt = 1, enemy_defeated = False, xp_gained = 0,
                     gold_gained = 0\<rparr>, Some skirmish_after, sconst 0) \<and>
   xp (hero skirmish_after) = xp (hero skirmish) \<and>
   gold (hero skirmish_after) = gold (hero skirmish)"
  using attack_rewards[of example_hero weak_enemy defending 1 False "sconst 0" _ example_hero
      "weak_enemy\<lparr>hp := 0\<rparr>" _ "sconst 0" basic_skills "''weak''" "''basic_attack''" arena
      "sconst 0" _ arena_won "sconst 0"]
    attack_rewards[of example_hero weak_enemy defending 1 False "sconst 0" _ example_hero
      "weak_enemy\<lparr>hp := 0\<rparr>" _ "sconst 0" basic_skills "''guardian''" "''basic_attack''"
      skirmish "sconst 0" _ skirmish_after "sconst 0"]
    arena_strike[of defending] arena_attack skirmish_attack
  by (simp add: arena_won_def arena_def skirmish_after_def skirmish_def example_hero_def)

subsection \<open>Treasure rooms\<close>

lemma draw_zero: "random_random (sconst 0) = (0, sconst 0)"
  by (simp add: random_random_def rat_number_collapse)

lemma loot_slot:
  "generate_loot vault_data dep t (Suc k) (sconst 0) =
     (case generate_loot vault_data dep t k (sconst 0) of
        Inl e \<Rightarrow> Inl e
      | Inr (loot, g) \<Rightarrow> Inr (IWeapon http_client # loot, g))"
proof -
  have r: "0 < weapon_drop_rate http_client" by (simp add: http_client_def)
  have w: "weapons vault_data = [http_client]" by (simp add: vault_data_def)
  show ?thesis
    by (simp add: random_choice_def w draw_zero r)
qed

lemma vault_loot:
  "generate_loot vault_data 2 Uncommon 2 (sconst 0) =
     Inr ([IWeapon http_client, IWeapon http_client], sconst 0)"
proof -
  have "generate_loot vault_data 2 Uncommon (Suc (Suc 0)) (sconst 0) =
     Inr ([IWeapon http_client, IWeapon http_client], sconst 0)"
    by (simp only: loot_slot generate_loot.simps(1) sum.case prod.case)
  then show ?thesis by (simp add: numeral_2_eq_2)
qed

lemma vault_id: "str_int 2 = ''2''" "str_int 1000 = ''1000''"
  by (simp add: str_int_def, simp add: str_nat.simps)+

lemma generate_loot_length:
  "generate_loot d dep t k g = Inr (loot, g') \<Longrightarrow> length loot \<le> k"
proof (induction k arbitrary: g loot g')
  case 0
  then show ?case by simp
next
  case (Suc k)
  from Suc.prems obtain kind g1 where
    c: "random_choice [Weapons, Armors, Consumables] g = Inr (kind, g1)"
    by (auto split: sum.splits)
  obtain avail g2 where f: "drop_filter (item_pool d kind) g1 = (avail, g2)"
    by (cases "drop_filter (item_pool d kind) g1")
  show ?case
  proof (cases "avail = []")
    case True
    with Suc.prems c f have "generate_loot d dep t k g2 = Inr (loot, g')" by simp
    from Suc.IH[OF this] show ?thesis by simp
  next
    case False
    with Suc.prems c f obtain it g3 rest where
      "generate_loot d dep t k g3 = Inr (rest, g')" "loot = it # rest"
      by (auto split: sum.splits)
    with Suc.IH[of g3 rest g'] show ?thesis by simp
  qed
qed

lemma randint_le: "randint a b g = Inr (r, g') \<Longrightarrow> a \<le> r \<and> r \<le> b"
  using randint_range[of a b g] by (auto simp: randint_def split: if_splits)

lemma treasure_room_bounds:
  "generate_room d dep req g = Inr (room, g') \<and> room_type room = Treasure \<longrightarrow>
     room_enemies room = [] \<and> length (room_items room) \<le> 4"
proof
  assume a: "generate_room d dep req g = Inr (room, g') \<and> room_type room = Treasure"
  obtain rt g1 where rt: "(case req of Some t \<Rightarrow> (t, g)
             | None \<Rightarrow> if dep mod 5 = 0 then (Boss, g) else choose_room_type g) = (rt, g1)"
    by (cases "(case req of Some t \<Rightarrow> (t, g)
             | None \<Rightarrow> if dep mod 5 = 0 then (Boss, g) else choose_room_type g)")
  from a rt obtain n descr sys g4 where
    p: "populate d dep
          \<lparr>room_id = room_type_str rt @ ''_'' @ str_int dep @ ''_'' @ str_int n,
           room_type = rt, system_name = sys, description = descr,
           exits = [], room_items = [], room_enemies = [],
           is_cleared = False, is_discovered = False, room_depth = dep\<rparr> g4 = Inr (room, g')"
    unfolding generate_room_def by (auto simp: Let_def split: sum.splits)
  have t: "room_type room = rt"
    using p unfolding populate_def by (auto split: if_splits sum.splits)
  with a have rtT: "rt = Treasure" by simp
  from p rtT obtain q g5 loot where
    q: "randint 2 4 g4 = Inr (q, g5)" and
    l: "generate_loot d dep Uncommon (nat q) g5 = Inr (loot, g')" and
    r: "room_enemies room = []" "room_items room = loot"
    unfolding populate_def by (auto split: sum.splits)
  from randint_le[OF q] have "nat q \<le> 4" by arith
  with generate_loot_length[OF l] r
  show "room_enemies room = [] \<and> length (room_items room) \<le> 4" by simp
qed

text \<open>
  Claim C6 says that every item of a treasure room has tier uncommon or better.
  \<open>_generate_loot\<close> receives \<open>min_tier = "uncommon"\<close> and never reads it (its comment says
  "Filter by drop rate and tier", the filter tests the drop rate only): with a common
  weapon in the table, the treasure room holds two common weapons.  The other two parts of
  the claim hold (lemma \<open>treasure_room_bounds\<close>).
\<close>

theorem treasure_room_common_item:
  "generate_room vault_data 2 (Some Treasure) (sconst 0) = Inr (vault, sconst 0) \<and>
   room_type vault = Treasure \<and>
   map item_tier (room_items vault) = [Some Common, Some Common]"
proof -
  have g: "generate_room vault_data 2 (Some Treasure) (sconst 0) = Inr (vault, sconst 0)"
    unfolding generate_room_def populate_def
    by (simp add: randint_def random_choice_def vault_data_def vault_id
        vault_loot[unfolded vault_data_def] vault_def)
  show ?thesis using g by (simp add: vault_def http_client_def)
qed

end
